theory Spec2Isabelle
  imports Main
begin

section \<open>The write tool: data\<close>

text \<open>
  The development embeds \<^verbatim>\<open>writeTool.Run\<close> and \<^verbatim>\<open>generateDefaultFilename\<close> of
  \<^verbatim>\<open>internal/llm/tools/write.go\<close> (the second half of \<^verbatim>\<open>src/internal/llm/prompt/coder.go\<close>).
  Go strings are byte sequences, hence \<^typ>\<open>string\<close>; a Go \<^verbatim>\<open>time.Time\<close> is a point on a
  linear time scale, hence an integer.
\<close>

type_synonym time = int

record WriteParams =
  FilePath :: string
  Content :: string

text \<open>\<^verbatim>\<open>WritePermissionsParams{FilePath, Diff}\<close>; the fields carry a prefix because
  \<^verbatim>\<open>FilePath\<close> and \<^verbatim>\<open>Diff\<close> are fields of other structs too.\<close>

record WritePermissionsParams =
  perm_FilePath :: string
  perm_Diff :: string

record WriteResponseMetadata =
  Diff :: string
  Additions :: int
  Removals :: int

record ToolCall =
  Input :: string

text \<open>
  Modelled from the spec: \<^verbatim>\<open>GetContextValues\<close> is defined in another file of the package. It
  is the call-scoped lookup yielding (sessionId, messageId); an absent value is the empty
  string that \<^verbatim>\<open>Run\<close> tests for.
\<close>

record Context =
  sessionID :: string
  messageID :: string

text \<open>\<^verbatim>\<open>permission.CreatePermissionRequest\<close>, with the fields \<^verbatim>\<open>Run\<close> fills in.\<close>

record CreatePermissionRequest =
  SessionID :: string
  Path :: string
  ToolName :: string
  Action :: string
  Description :: string
  Params :: WritePermissionsParams

text \<open>
  Modelled from the spec: \<^verbatim>\<open>ToolResponse\<close> and its constructors \<^verbatim>\<open>NewTextResponse\<close>,
  \<^verbatim>\<open>NewTextErrorResponse\<close> and \<^verbatim>\<open>WithResponseMetadata\<close> are declared in another file
  of the package. The spec describes the response as a text body, a flag telling a textual tool
  error from a result, and an attached structured metadata record.
\<close>

record ToolResponse =
  resp_Content :: string
  resp_Metadata :: "WriteResponseMetadata option"
  IsError :: bool

definition NewTextResponse :: "string \<Rightarrow> ToolResponse" where
  "NewTextResponse c = \<lparr>resp_Content = c, resp_Metadata = None, IsError = False\<rparr>"

definition NewTextErrorResponse :: "string \<Rightarrow> ToolResponse" where
  "NewTextErrorResponse c = \<lparr>resp_Content = c, resp_Metadata = None, IsError = True\<rparr>"

definition WithResponseMetadata :: "ToolResponse \<Rightarrow> WriteResponseMetadata \<Rightarrow> ToolResponse" where
  "WithResponseMetadata r m = r\<lparr>resp_Metadata := Some m\<rparr>"

text \<open>
  The second component of Go's \<^verbatim>\<open>(ToolResponse, error)\<close>: either the sentinel
  \<^verbatim>\<open>permission.ErrorPermissionDenied\<close> (declared in the permission package; the spec's
  distinct \<^verbatim>\<open>PermissionDenied\<close> error kind) or an error built by \<^verbatim>\<open>fmt.Errorf\<close>, kept
  as its message. \<^verbatim>\<open>Run\<close> returns \<open>Inl\<close> of it where the Go code returns a non-nil
  error.
\<close>

datatype go_error = ErrorPermissionDenied | Errorf string

type_synonym outcome = "go_error + ToolResponse"

text \<open>The constant \<^verbatim>\<open>WriteToolName\<close>.\<close>

definition WriteToolName :: string where
  "WriteToolName = ''write''"

section \<open>The collaborators\<close>

subsection \<open>Library functions\<close>

text \<open>
  Functions of other packages that \<^verbatim>\<open>Run\<close> calls and that compute a value without
  touching any state are parameters of the model: \<^verbatim>\<open>json.Unmarshal\<close> into
  \<^verbatim>\<open>WriteParams\<close> (\<open>Inl\<close> the error text), \<^verbatim>\<open>config.WorkingDirectory\<close>,
  \<^verbatim>\<open>filepath.IsAbs\<close>, \<^verbatim>\<open>filepath.Join\<close>, \<^verbatim>\<open>filepath.Dir\<close>, the Unicode-aware
  \<^verbatim>\<open>strings.TrimSpace\<close> and \<^verbatim>\<open>strings.ToLower\<close>, \<^verbatim>\<open>Time.Format(time.RFC3339)\<close>,
  \<^verbatim>\<open>diff.GenerateDiff\<close> and the rendering of a non-empty list of diagnostics.
  Every theorem below holds for all of them.
\<close>

record host =
  Unmarshal :: "string \<Rightarrow> string + WriteParams"
  WorkingDirectory :: string
  IsAbs :: "string \<Rightarrow> bool"
  Join :: "string \<Rightarrow> string \<Rightarrow> string"
  Dir :: "string \<Rightarrow> string"
  TrimSpace :: "string \<Rightarrow> string"
  ToLower :: "string \<Rightarrow> string"
  FormatRFC3339 :: "time \<Rightarrow> string"
  GenerateDiff :: "string \<Rightarrow> string \<Rightarrow> string \<Rightarrow> string \<times> int \<times> int"
  formatDiagnostics :: "string list \<Rightarrow> string"

subsection \<open>The world the tool acts on\<close>

text \<open>
  Everything \<^verbatim>\<open>Run\<close> reads or changes is a field of one record that is passed along:
  the filesystem, the clock, the timestamp registry, the version store, the approver
  behind the permission service, the findings of the diagnostics backends, and a log of
  the calls made on the collaborators. \<open>faults\<close> injects failures: an operation it maps
  to \<open>Some e\<close> fails with the error text \<open>e\<close> whatever the state is (permissions, a
  full disk, a broken database).
\<close>

datatype node = RegularFile string time | Directory time

datatype op =
    Stat string
  | ReadFile string
  | MkdirAll string
  | WriteFile string string
  | GetByPathAndSession string string
  | Create string string string
  | CreateVersion string string string
  | Debug string string
  | RecordFileWrite string
  | RecordFileRead string
  | WaitForLspDiagnostics string

datatype event =
    Ok op
  | Failed op string
  | Granted CreatePermissionRequest
  | Denied CreatePermissionRequest

record fileRecord =
  readTime :: time
  writeTime :: time

record world =
  fs :: "string \<rightharpoonup> node"
  faults :: "op \<Rightarrow> string option"
  now :: time
  fileRecords :: "string \<Rightarrow> fileRecord"
  versions :: "string \<times> string \<Rightarrow> string list"
  approver :: "CreatePermissionRequest \<Rightarrow> bool"
  findings :: "string \<Rightarrow> string list"
  events :: "event list"

definition emit :: "event \<Rightarrow> world \<Rightarrow> world" where
  "emit ev w = w\<lparr>events := events w @ [ev]\<rparr>"

subsection \<open>Filesystem\<close>

text \<open>
  \<^verbatim>\<open>os.Stat\<close>, \<^verbatim>\<open>os.ReadFile\<close>, \<^verbatim>\<open>os.MkdirAll\<close> and \<^verbatim>\<open>os.WriteFile\<close> on a filesystem
  that maps a path to a regular file (content and modification time) or a directory.
  \<^verbatim>\<open>os.IsNotExist\<close> holds of \<open>NotExist\<close> only.
\<close>

datatype os_error = NotExist | IOError string

fun Error :: "os_error \<Rightarrow> string" where
  "Error NotExist = ''no such file or directory''"
| "Error (IOError e) = e"

record FileInfo =
  IsDir :: bool
  ModTime :: time

definition os_Stat :: "string \<Rightarrow> world \<Rightarrow> (os_error + FileInfo) \<times> world" where
  "os_Stat p w =
     (case faults w (Stat p) of
        Some e \<Rightarrow> (Inl (IOError e), emit (Failed (Stat p) e) w)
      | None \<Rightarrow>
         (case fs w p of
            None \<Rightarrow> (Inl NotExist, emit (Failed (Stat p) (Error NotExist)) w)
          | Some (RegularFile c m) \<Rightarrow> (Inr \<lparr>IsDir = False, ModTime = m\<rparr>, emit (Ok (Stat p)) w)
          | Some (Directory m) \<Rightarrow> (Inr \<lparr>IsDir = True, ModTime = m\<rparr>, emit (Ok (Stat p)) w)))"

definition os_ReadFile :: "string \<Rightarrow> world \<Rightarrow> (string + string) \<times> world" where
  "os_ReadFile p w =
     (case faults w (ReadFile p) of
        Some e \<Rightarrow> (Inl e, emit (Failed (ReadFile p) e) w)
      | None \<Rightarrow>
         (case fs w p of
            Some (RegularFile c m) \<Rightarrow> (Inr c, emit (Ok (ReadFile p)) w)
          | Some (Directory m) \<Rightarrow> (Inl ''is a directory'', emit (Failed (ReadFile p) ''is a directory'') w)
          | None \<Rightarrow> (Inl (Error NotExist), emit (Failed (ReadFile p) (Error NotExist)) w)))"

text \<open>The path itself and every proper prefix of it that ends before a separator:
  the directories \<^verbatim>\<open>os.MkdirAll\<close> makes sure of.\<close>

definition path_prefixes :: "string \<Rightarrow> string list" where
  "path_prefixes p = [take i p. i \<leftarrow> [1..<length p], p ! i = CHR ''/''] @ [p]"

fun mkdirs :: "string list \<Rightarrow> time \<Rightarrow> (string \<rightharpoonup> node) \<Rightarrow> (string \<rightharpoonup> node)" where
  "mkdirs [] t f = f"
| "mkdirs (a # as) t f = mkdirs as t (if f a = None then f(a \<mapsto> Directory t) else f)"

fun is_regular :: "node option \<Rightarrow> bool" where
  "is_regular (Some (RegularFile c m)) = True"
| "is_regular _ = False"

definition os_MkdirAll :: "string \<Rightarrow> world \<Rightarrow> string option \<times> world" where
  "os_MkdirAll d w =
     (case faults w (MkdirAll d) of
        Some e \<Rightarrow> (Some e, emit (Failed (MkdirAll d) e) w)
      | None \<Rightarrow>
         if list_ex (\<lambda>a. is_regular (fs w a)) (path_prefixes d)
         then (Some ''not a directory'', emit (Failed (MkdirAll d) ''not a directory'') w)
         else (None, emit (Ok (MkdirAll d)) (w\<lparr>fs := mkdirs (path_prefixes d) (now w) (fs w)\<rparr>)))"

definition os_WriteFile :: "string \<Rightarrow> string \<Rightarrow> world \<Rightarrow> string option \<times> world" where
  "os_WriteFile p c w =
     (case faults w (WriteFile p c) of
        Some e \<Rightarrow> (Some e, emit (Failed (WriteFile p c) e) w)
      | None \<Rightarrow>
         (case fs w p of
            Some (Directory m) \<Rightarrow> (Some ''is a directory'', emit (Failed (WriteFile p c) ''is a directory'') w)
          | _ \<Rightarrow> (None, emit (Ok (WriteFile p c)) (w\<lparr>fs := (fs w)(p \<mapsto> RegularFile c (now w))\<rparr>))))"

subsection \<open>Timestamp registry\<close>

text \<open>
  Modelled from the spec: \<^verbatim>\<open>getLastReadTime\<close>, \<^verbatim>\<open>recordFileRead\<close> and
  \<^verbatim>\<open>recordFileWrite\<close> are defined in another file of the package. The spec's Timestamp Record
  is (path \<open>\<rightarrow>\<close> last-read-at, last-write-at), process-wide, updated every time the core
  reads or writes a path on the agent's behalf.
\<close>

definition getLastReadTime :: "string \<Rightarrow> world \<Rightarrow> time" where
  "getLastReadTime p w = readTime (fileRecords w p)"

definition recordFileWrite :: "string \<Rightarrow> world \<Rightarrow> world" where
  "recordFileWrite p w =
     emit (Ok (RecordFileWrite p))
       (w\<lparr>fileRecords := (fileRecords w)(p := (fileRecords w p)\<lparr>writeTime := now w\<rparr>)\<rparr>)"

definition recordFileRead :: "string \<Rightarrow> world \<Rightarrow> world" where
  "recordFileRead p w =
     emit (Ok (RecordFileRead p))
       (w\<lparr>fileRecords := (fileRecords w)(p := (fileRecords w p)\<lparr>readTime := now w\<rparr>)\<rparr>)"

subsection \<open>Version store\<close>

text \<open>
  Modelled from the spec: the history service behind \<^verbatim>\<open>w.files\<close> is defined in the
  history package. Per (session, path) the store holds an ordered, append-only list of
  content snapshots. \<^verbatim>\<open>getLatest(sessionId, path) \<rightarrow> FileVersion | notFound\<close>;
  \<^verbatim>\<open>createInitial\<close> fails if a version already exists for that (session, path);
  \<^verbatim>\<open>appendVersion\<close> appends. Each of them can also fail by an injected storage fault.
  With an error, \<^verbatim>\<open>GetByPathAndSession\<close> returns Go's zero \<^verbatim>\<open>File{}\<close>, whose content is
  the empty string.
\<close>

record File =
  file_SessionID :: string
  file_Path :: string
  file_Content :: string
  file_Version :: nat

definition zero_File :: File where
  "zero_File = \<lparr>file_SessionID = '''', file_Path = '''', file_Content = '''', file_Version = 0\<rparr>"

definition files_GetByPathAndSession :: "string \<Rightarrow> string \<Rightarrow> world \<Rightarrow> (File \<times> string option) \<times> world" where
  "files_GetByPathAndSession p sid w =
     (case faults w (GetByPathAndSession p sid) of
        Some e \<Rightarrow> ((zero_File, Some e), emit (Failed (GetByPathAndSession p sid) e) w)
      | None \<Rightarrow>
         (case versions w (sid, p) of
            [] \<Rightarrow> ((zero_File, Some ''not found''), emit (Failed (GetByPathAndSession p sid) ''not found'') w)
          | v # vs \<Rightarrow>
              ((\<lparr>file_SessionID = sid, file_Path = p, file_Content = last (v # vs),
                 file_Version = length vs\<rparr>, None),
               emit (Ok (GetByPathAndSession p sid)) w)))"

definition files_Create :: "string \<Rightarrow> string \<Rightarrow> string \<Rightarrow> world \<Rightarrow> string option \<times> world" where
  "files_Create sid p c w =
     (case faults w (Create sid p c) of
        Some e \<Rightarrow> (Some e, emit (Failed (Create sid p c) e) w)
      | None \<Rightarrow>
         if versions w (sid, p) \<noteq> []
         then (Some ''already exists'', emit (Failed (Create sid p c) ''already exists'') w)
         else (None, emit (Ok (Create sid p c)) (w\<lparr>versions := (versions w)((sid, p) := [c])\<rparr>)))"

definition files_CreateVersion :: "string \<Rightarrow> string \<Rightarrow> string \<Rightarrow> world \<Rightarrow> string option \<times> world" where
  "files_CreateVersion sid p c w =
     (case faults w (CreateVersion sid p c) of
        Some e \<Rightarrow> (Some e, emit (Failed (CreateVersion sid p c) e) w)
      | None \<Rightarrow>
         (None, emit (Ok (CreateVersion sid p c))
                  (w\<lparr>versions := (versions w)((sid, p) := versions w (sid, p) @ [c])\<rparr>)))"

subsection \<open>Permission service, logging, diagnostics\<close>

text \<open>
  Modelled from the spec: the permission service is defined in the permission package.
  \<^verbatim>\<open>request(\<dots>) \<rightarrow> granted:boolean\<close> is a synchronous decision point; who decides (a
  cached rule or the human approver) is the world's \<open>approver\<close>.
\<close>

definition permissions_Request :: "CreatePermissionRequest \<Rightarrow> world \<Rightarrow> bool \<times> world" where
  "permissions_Request req w =
     (approver w req, emit (if approver w req then Granted req else Denied req) w)"

text \<open>
  Modelled from the spec: \<^verbatim>\<open>logging.Debug\<close> is defined in the logging package. A
  version-write failure is logged; the log entry carries the message and the error.
\<close>

definition logging_Debug :: "string \<Rightarrow> string \<Rightarrow> world \<Rightarrow> world" where
  "logging_Debug msg err w = emit (Ok (Debug msg err)) w"

text \<open>
  Modelled from the spec: \<^verbatim>\<open>waitForLspDiagnostics\<close> and \<^verbatim>\<open>getDiagnostics\<close> are defined
  in another file of the package. The wait is bounded and changes nothing the tool reads; the
  diagnostics block is appended when any backend returned findings, and with no findings
  (or no backend) the diagnostics section is omitted.
\<close>

definition waitForLspDiagnostics :: "string \<Rightarrow> world \<Rightarrow> world" where
  "waitForLspDiagnostics p w = emit (Ok (WaitForLspDiagnostics p)) w"

definition getDiagnostics :: "host \<Rightarrow> string \<Rightarrow> world \<Rightarrow> string" where
  "getDiagnostics h p w = (if findings w p = [] then '''' else formatDiagnostics h (findings w p))"

section \<open>String functions of the Go library\<close>

definition HasPrefix :: "string \<Rightarrow> string \<Rightarrow> bool" where
  "HasPrefix s pre = (take (length pre) s = pre)"

fun Contains :: "string \<Rightarrow> string \<Rightarrow> bool" where
  "Contains [] sub = (sub = [])"
| "Contains (c # cs) sub = (HasPrefix (c # cs) sub \<or> Contains cs sub)"

text \<open>\<^verbatim>\<open>strings.Split(s, "\n")\<close>: never the empty list.\<close>

fun Split_newline :: "string \<Rightarrow> string list" where
  "Split_newline [] = [[]]"
| "Split_newline (c # cs) =
     (if c = CHR 0x0A then [] # Split_newline cs
      else (case Split_newline cs of l # ls \<Rightarrow> (c # l) # ls | [] \<Rightarrow> [[c]]))"

text \<open>\<^verbatim>\<open>strings.Count(s, ",")\<close>.\<close>

definition Count_comma :: "string \<Rightarrow> nat" where
  "Count_comma s = length (filter (\<lambda>c. c = CHR '','') s)"

text \<open>The character classes \<^verbatim>\<open>\s\<close> and \<^verbatim>\<open>\w\<close> of Go's \<^verbatim>\<open>regexp\<close>, which are ASCII-only.\<close>

definition re_space :: "char \<Rightarrow> bool" where
  "re_space c = (c \<in> set [CHR 0x09, CHR 0x0A, CHR 0x0C, CHR 0x0D, CHR '' ''])"

definition re_word :: "char \<Rightarrow> bool" where
  "re_word c = (let n = of_char c :: nat in
     (48 \<le> n \<and> n \<le> 57) \<or> (65 \<le> n \<and> n \<le> 90) \<or> (97 \<le> n \<and> n \<le> 122) \<or> n = 95)"

text \<open>\<^verbatim>\<open>regexp.MustCompile(`print\s*\(`).MatchString(s)\<close>: somewhere in \<open>s\<close> stands
  \<^verbatim>\<open>print\<close>, then any number of spaces, then an opening parenthesis.\<close>

fun match_print_call :: "string \<Rightarrow> bool" where
  "match_print_call [] = False"
| "match_print_call (c # cs) =
     ((HasPrefix (c # cs) ''print'' \<and> HasPrefix (dropWhile re_space (drop 5 (c # cs))) ''('')
      \<or> match_print_call cs)"

text \<open>\<^verbatim>\<open>regexp.MustCompile(`^\s*\w+:\s*`).MatchString(s)\<close>: \<open>s\<close> starts with spaces, then
  at least one word character, then a colon.\<close>

definition match_yaml_key :: "string \<Rightarrow> bool" where
  "match_yaml_key s =
     (let r = dropWhile re_space s
      in takeWhile re_word r \<noteq> [] \<and> HasPrefix (dropWhile re_word r) '':'')"

section \<open>The default file name\<close>

text \<open>
  \<^verbatim>\<open>generateDefaultFilename\<close>, test by test in the order of the source. The needles are
  matched against the lower-cased content, so those with a capital letter
  (\<^verbatim>\<open>System.out.println\<close>, \<^verbatim>\<open><!DOCTYPE\<close>) are kept as the source has them.
\<close>

definition generateDefaultFilename :: "host \<Rightarrow> string \<Rightarrow> string" where
  "generateDefaultFilename h content =
     (let lines = Split_newline (TrimSpace h content) in
      if length lines = 0 then ''output.txt''
      else
       let firstLine = TrimSpace h (lines ! 0);
           contentLower = ToLower h content
       in
        if HasPrefix firstLine ''#!/usr/bin/env python'' \<or> HasPrefix firstLine ''#!/usr/bin/python'' \<or>
           Contains contentLower ''def '' \<or> Contains contentLower ''import '' \<or>
           Contains contentLower ''from '' \<or> match_print_call contentLower
        then ''script.py''
        else if Contains contentLower ''#include'' \<or> Contains contentLower ''int main'' \<or>
           Contains contentLower ''std::'' \<or> Contains contentLower ''cout''
        then ''program.cpp''
        else if Contains contentLower ''#include'' \<and> Contains contentLower ''printf''
        then ''program.c''
        else if Contains contentLower ''public class'' \<or>
           Contains contentLower ''public static void main'' \<or>
           Contains contentLower ''System.out.println''
        then ''Program.java''
        else if Contains contentLower ''function'' \<or> Contains contentLower ''console.log'' \<or>
           Contains contentLower ''const '' \<or> Contains contentLower ''let '' \<or>
           Contains contentLower ''var '' \<or> Contains contentLower ''=>''
        then ''script.js''
        else if Contains contentLower ''func '' \<or> Contains contentLower ''package main'' \<or>
           Contains contentLower (''import '' @ [CHR 0x22]) \<or> Contains contentLower ''fmt.''
        then ''program.go''
        else if Contains contentLower ''fn '' \<or> Contains contentLower ''println!'' \<or>
           Contains contentLower ''use std::''
        then ''program.rs''
        else if Contains contentLower ''<!DOCTYPE'' \<or> Contains contentLower ''<html'' \<or>
           Contains contentLower ''<body'' \<or> Contains contentLower ''<div''
        then ''index.html''
        else if Contains contentLower ''<?xml'' \<or> Contains contentLower ''<xml''
        then ''document.xml''
        else if Contains contentLower ''{'' \<and> Contains contentLower ''}'' \<and>
           (Contains contentLower [CHR 0x22] \<or> Contains contentLower '':'')
        then ''data.json''
        else if HasPrefix firstLine ''#!/bin/bash'' \<or> HasPrefix firstLine ''#!/bin/sh'' \<or>
           Contains contentLower ''echo '' \<or> Contains contentLower ''if [''
        then ''script.sh''
        else if Contains contentLower ''select '' \<or> Contains contentLower ''create table'' \<or>
           Contains contentLower ''insert into'' \<or> Contains contentLower ''update ''
        then ''query.sql''
        else if HasPrefix firstLine ''#'' \<or> Contains contentLower ''##'' \<or>
           Contains contentLower ''```'' \<or> Contains contentLower ''**''
        then ''document.md''
        else if Contains contentLower ''['' \<and> Contains contentLower '']'' \<and>
           Contains contentLower ''=''
        then ''config.ini''
        else if Contains contentLower ''---'' \<or> match_yaml_key firstLine
        then ''config.yaml''
        else if Contains contentLower '','' \<and> Count_comma firstLine > 1
        then ''data.csv''
        else ''output.txt'')"

section \<open>The write tool\<close>

text \<open>The two messages \<^verbatim>\<open>Run\<close> formats for an existing file.\<close>

definition stale_message :: "host \<Rightarrow> string \<Rightarrow> time \<Rightarrow> time \<Rightarrow> string" where
  "stale_message h filePath modTime lastRead =
     ''File '' @ filePath @ '' has been modified since it was last read.'' @ [CHR 0x0A] @
     ''Last modification: '' @ FormatRFC3339 h modTime @ [CHR 0x0A] @
     ''Last read: '' @ FormatRFC3339 h lastRead @ [CHR 0x0A, CHR 0x0A] @
     ''Please read the file again before modifying it.''"

definition unchanged_message :: "string \<Rightarrow> string" where
  "unchanged_message filePath =
     ''File '' @ filePath @ '' already contains the exact content. No changes made.''"

text \<open>Lines 440 to 443: an empty \<^verbatim>\<open>file_path\<close> is replaced by a generated name.\<close>

definition with_default_name :: "host \<Rightarrow> WriteParams \<Rightarrow> WriteParams" where
  "with_default_name h params =
     (if FilePath params = ''''
      then params\<lparr>FilePath := generateDefaultFilename h (Content params)\<rparr>
      else params)"

text \<open>Lines 449 to 452: a relative path is joined to the working directory.\<close>

definition absolute_path :: "host \<Rightarrow> string \<Rightarrow> string" where
  "absolute_path h filePath =
     (if \<not> IsAbs h filePath then Join h (WorkingDirectory h) filePath else filePath)"

text \<open>Lines 548 to 561: timestamps, diagnostics and the response.\<close>

definition finish :: "host \<Rightarrow> string \<Rightarrow> string \<times> int \<times> int \<Rightarrow> world \<Rightarrow> outcome \<times> world" where
  "finish h filePath d w0 =
     (case d of (diff, additions, removals) \<Rightarrow>
        let w1 = recordFileWrite filePath w0;
            w2 = recordFileRead filePath w1;
            w3 = waitForLspDiagnostics filePath w2;
            result = ''File successfully written: '' @ filePath;
            result = ''<result>'' @ [CHR 0x0A] @ result @ [CHR 0x0A] @ ''</result>'';
            result = result @ getDiagnostics h filePath w3
        in (Inr (WithResponseMetadata (NewTextResponse result)
                   \<lparr>Diff = diff, Additions = additions, Removals = removals\<rparr>), w3))"

text \<open>Lines 526 to 546: the version store. \<open>file\<close> is what \<^verbatim>\<open>GetByPathAndSession\<close>
  returned, also after \<^verbatim>\<open>Create\<close> has run.\<close>

definition log_version_error :: "string option \<times> world \<Rightarrow> world" where
  "log_version_error r =
     (case r of
        (Some e, w) \<Rightarrow> logging_Debug ''Error creating file history version'' e w
      | (None, w) \<Rightarrow> w)"

definition record_history ::
  "host \<Rightarrow> Context \<Rightarrow> WriteParams \<Rightarrow> string \<Rightarrow> string \<Rightarrow> string \<times> int \<times> int \<Rightarrow> world \<Rightarrow> outcome \<times> world" where
  "record_history h ctx params filePath oldContent d w0 =
     (case files_GetByPathAndSession filePath (sessionID ctx) w0 of
        ((file, err), w1) \<Rightarrow>
          (case (if err \<noteq> None then files_Create (sessionID ctx) filePath oldContent w1
                 else (None, w1)) of
             (Some e, w2) \<Rightarrow> (Inl (Errorf (''error creating file history: '' @ e)), w2)
           | (None, w2) \<Rightarrow>
               let w3 = (if file_Content file \<noteq> oldContent
                         then log_version_error
                                (files_CreateVersion (sessionID ctx) filePath oldContent w2)
                         else w2);
                   w4 = log_version_error
                          (files_CreateVersion (sessionID ctx) filePath (Content params) w3)
               in finish h filePath d w4))"

text \<open>Lines 475 to 524: parent directories, the old content, the session, the diff, the
  permission request and the write. \<open>fileInfo\<close> is \<open>None\<close> where \<^verbatim>\<open>os.Stat\<close> found
  nothing (Go's nil \<^verbatim>\<open>fileInfo\<close>).\<close>

definition read_old_content :: "string \<Rightarrow> FileInfo option \<Rightarrow> world \<Rightarrow> string \<times> world" where
  "read_old_content filePath fileInfo w =
     (case fileInfo of
        None \<Rightarrow> ('''', w)
      | Some fi \<Rightarrow>
          if \<not> IsDir fi
          then (case os_ReadFile filePath w of
                  (Inr oldBytes, w1) \<Rightarrow> (oldBytes, w1)
                | (Inl readErr, w1) \<Rightarrow> ('''', w1))
          else ('''', w))"

definition permission_request :: "host \<Rightarrow> Context \<Rightarrow> string \<Rightarrow> string \<Rightarrow> CreatePermissionRequest" where
  "permission_request h ctx filePath diff =
     (let rootDir = WorkingDirectory h;
          permissionPath = Dir h filePath;
          permissionPath = (if HasPrefix filePath rootDir then rootDir else permissionPath)
      in \<lparr>SessionID = sessionID ctx,
          Path = permissionPath,
          ToolName = WriteToolName,
          Action = ''write'',
          Description = ''Create file '' @ filePath,
          Params = \<lparr>perm_FilePath = filePath, perm_Diff = diff\<rparr>\<rparr>)"

definition write_file ::
  "host \<Rightarrow> Context \<Rightarrow> WriteParams \<Rightarrow> string \<Rightarrow> FileInfo option \<Rightarrow> world \<Rightarrow> outcome \<times> world" where
  "write_file h ctx params filePath fileInfo w0 =
     (case os_MkdirAll (Dir h filePath) w0 of
        (Some e, w1) \<Rightarrow> (Inl (Errorf (''error creating directory: '' @ e)), w1)
      | (None, w1) \<Rightarrow>
          (case read_old_content filePath fileInfo w1 of
             (oldContent, w2) \<Rightarrow>
               if sessionID ctx = '''' \<or> messageID ctx = ''''
               then (Inl (Errorf ''session_id and message_id are required''), w2)
               else
                 let d = GenerateDiff h oldContent (Content params) filePath
                 in (case permissions_Request (permission_request h ctx filePath (fst d)) w2 of
                       (False, w3) \<Rightarrow> (Inl ErrorPermissionDenied, w3)
                     | (True, w3) \<Rightarrow>
                         (case os_WriteFile filePath (Content params) w3 of
                            (Some e, w4) \<Rightarrow> (Inl (Errorf (''error writing file: '' @ e)), w4)
                          | (None, w4) \<Rightarrow> record_history h ctx params filePath oldContent d w4))))"

text \<open>Lines 434 to 473, and from there the rest of \<^verbatim>\<open>writeTool.Run\<close>.\<close>

definition Run :: "host \<Rightarrow> Context \<Rightarrow> ToolCall \<Rightarrow> world \<Rightarrow> outcome \<times> world" where
  "Run h ctx call w0 =
     (case Unmarshal h (Input call) of
        Inl err \<Rightarrow> (Inr (NewTextErrorResponse (''error parsing parameters: '' @ err)), w0)
      | Inr params0 \<Rightarrow>
          let params = with_default_name h params0 in
          if Content params = '''' then (Inr (NewTextErrorResponse ''content is required''), w0)
          else
            let filePath = absolute_path h (FilePath params) in
            (case os_Stat filePath w0 of
               (Inr fileInfo, w1) \<Rightarrow>
                 if IsDir fileInfo
                 then (Inr (NewTextErrorResponse (''Path is a directory, not a file: '' @ filePath)), w1)
                 else
                   let modTime = ModTime fileInfo;
                       lastRead = getLastReadTime filePath w1
                   in if modTime > lastRead
                      then (Inr (NewTextErrorResponse (stale_message h filePath modTime lastRead)), w1)
                      else
                        (case os_ReadFile filePath w1 of
                           (oldContent, w2) \<Rightarrow>
                             if oldContent = Inr (Content params)
                             then (Inr (NewTextErrorResponse (unchanged_message filePath)), w2)
                             else write_file h ctx params filePath (Some fileInfo) w2)
             | (Inl err, w1) \<Rightarrow>
                 if err \<noteq> NotExist
                 then (Inl (Errorf (''error checking file: '' @ Error err)), w1)
                 else write_file h ctx params filePath None w1))"

text \<open>The path a call is about, and the events one call adds to the log.\<close>

definition target :: "host \<Rightarrow> WriteParams \<Rightarrow> string" where
  "target h params0 = absolute_path h (FilePath (with_default_name h params0))"

definition trace :: "host \<Rightarrow> Context \<Rightarrow> ToolCall \<Rightarrow> world \<Rightarrow> event list" where
  "trace h ctx call w = drop (length (events w)) (events (snd (Run h ctx call w)))"

section \<open>Notions used in the proofs\<close>

text \<open>
  An event is \<open>plain\<close> when it is neither a permission request nor a failed
  \<^verbatim>\<open>os.WriteFile\<close>; \<open>grows P w w'\<close> says that \<open>w'\<close> has the log of \<open>w\<close> followed by
  events that all satisfy \<open>P\<close>; \<open>appended w w'\<close> are those events. \<open>pre_image w p\<close> is
  the content the tool reads at \<open>p\<close> before it writes: the content of the regular file
  there, and the empty string where there is none or it cannot be read. \<open>success\<close> is
  the response built at lines 552 to 561, and \<open>agrees\<close> relates what \<^verbatim>\<open>os.Stat\<close>
  returned to the disk. \<open>asks dir p\<close> holds of every event that is not a permission
  request, and of a request for the directory \<open>dir\<close> about the file \<open>p\<close>.
\<close>

fun plain :: "event \<Rightarrow> bool" where
  "plain (Ok x) = True"
| "plain (Failed (WriteFile q c) m) = False"
| "plain (Failed x m) = True"
| "plain (Granted r) = False"
| "plain (Denied r) = False"

definition grows :: "(event \<Rightarrow> bool) \<Rightarrow> world \<Rightarrow> world \<Rightarrow> bool" where
  "grows P w w' = (\<exists>es. events w' = events w @ es \<and> list_all P es)"

definition appended :: "world \<Rightarrow> world \<Rightarrow> event list" where
  "appended w w' = drop (length (events w)) (events w')"

fun write_failure :: "event \<Rightarrow> bool" where
  "write_failure (Failed (WriteFile q c) m) = True"
| "write_failure _ = False"

definition pre_image :: "world \<Rightarrow> string \<Rightarrow> string" where
  "pre_image w p =
     (case fs w p of
        Some (RegularFile c m) \<Rightarrow> (case faults w (ReadFile p) of None \<Rightarrow> c | Some e \<Rightarrow> '''')
      | _ \<Rightarrow> '''')"

definition success :: "host \<Rightarrow> string \<Rightarrow> string \<times> int \<times> int \<Rightarrow> string list \<Rightarrow> ToolResponse" where
  "success h p d fnd =
     \<lparr>resp_Content = ''<result>'' @ [CHR 0x0A] @ ''File successfully written: '' @ p @ [CHR 0x0A] @ ''</result>'' @
        (if fnd = [] then [] else formatDiagnostics h fnd),
      resp_Metadata = Some \<lparr>Diff = fst d, Additions = fst (snd d), Removals = snd (snd d)\<rparr>,
      IsError = False\<rparr>"

definition agrees :: "FileInfo option \<Rightarrow> node option \<Rightarrow> bool" where
  "agrees fi n = (case fi of None \<Rightarrow> n = None | Some i \<Rightarrow> \<not> IsDir i \<and> is_regular n)"

fun request_of :: "event \<Rightarrow> CreatePermissionRequest option" where
  "request_of (Granted r) = Some r"
| "request_of (Denied r) = Some r"
| "request_of _ = None"

definition asks :: "string \<Rightarrow> string \<Rightarrow> event \<Rightarrow> bool" where
  "asks dir p e =
     (case request_of e of None \<Rightarrow> True
      | Some r \<Rightarrow> Path r = dir \<and> perm_FilePath (Params r) = p)"

section \<open>A concrete host and world\<close>

text \<open>
  To run the tool on concrete inputs the library functions are instantiated: the decoder
  by a table of the inputs used below, each with the parameters \<^verbatim>\<open>json.Unmarshal\<close>
  gives for it (an absent field is the empty string) and an error for anything else; the
  path functions for clean Unix paths; \<^verbatim>\<open>TrimSpace\<close> and \<^verbatim>\<open>ToLower\<close> for ASCII text;
  the time format for the first minute of 1970 (UTC); the diff engine by one that reports
  every old line removed and every new line added unless the texts are equal.
\<close>

definition decode :: "(string \<times> WriteParams) list \<Rightarrow> string \<Rightarrow> string + WriteParams" where
  "decode tbl s =
     (case map_of tbl s of Some p \<Rightarrow> Inr p | None \<Rightarrow> Inl ''unexpected end of JSON input'')"

definition ascii_space :: "char \<Rightarrow> bool" where
  "ascii_space c = (c \<in> set [CHR 0x09, CHR 0x0A, CHR 0x0B, CHR 0x0C, CHR 0x0D, CHR '' ''])"

definition ascii_TrimSpace :: "string \<Rightarrow> string" where
  "ascii_TrimSpace s = rev (dropWhile ascii_space (rev (dropWhile ascii_space s)))"

definition ascii_ToLower :: "string \<Rightarrow> string" where
  "ascii_ToLower s =
     map (\<lambda>c. let n = of_char c :: nat in if 65 \<le> n \<and> n \<le> 90 then char_of (n + 32) else c) s"

definition unix_Dir :: "string \<Rightarrow> string" where
  "unix_Dir p =
     (let d = rev (drop 1 (dropWhile (\<lambda>c. c \<noteq> CHR ''/'') (rev p)))
      in if d = [] then (if HasPrefix p ''/'' then ''/'' else ''.'') else d)"

definition first_minute :: "time \<Rightarrow> string" where
  "first_minute t =
     ''1970-01-01T00:00:'' @ [char_of (48 + nat t div 10), char_of (48 + nat t mod 10)] @ ''Z''"

definition text_lines :: "string \<Rightarrow> string list" where
  "text_lines s = (if s = [] then [] else Split_newline s)"

definition whole_file_diff :: "string \<Rightarrow> string \<Rightarrow> string \<Rightarrow> string \<times> int \<times> int" where
  "whole_file_diff old new path =
     (if old = new then ('''', 0, 0)
      else (concat (map (\<lambda>l. ''-'' @ l @ [CHR 0x0A]) (text_lines old)) @
            concat (map (\<lambda>l. ''+'' @ l @ [CHR 0x0A]) (text_lines new)),
            int (length (text_lines new)), int (length (text_lines old))))"

text \<open>The inputs of the tool calls.\<close>

definition in_notes :: string where
  \<open>in_notes = ''{"file_path":"/w/notes.txt","content":"hello"}''\<close>

definition in_unnamed :: string where
  \<open>in_unnamed = ''{"content":"hello"}''\<close>

definition in_named :: string where
  \<open>in_named = ''{"file_path":"output.txt","content":"hello"}''\<close>

definition in_blank :: string where
  \<open>in_blank = ''{"file_path":"/w/a.txt","content":""}''\<close>

definition in_new :: string where
  \<open>in_new = ''{"file_path":"/w/a.txt","content":"new"}''\<close>

definition in_old :: string where
  \<open>in_old = ''{"file_path":"/w/a.txt","content":"old"}''\<close>

definition in_deep :: string where
  \<open>in_deep = ''{"file_path":"/w/sub/a.txt","content":"hello"}''\<close>

definition in_root :: string where
  \<open>in_root = ''{"file_path":"/w","content":"hello"}''\<close>

definition in_none :: string where
  \<open>in_none = ''{"file_path":"/w/e.txt","content":""}''\<close>

definition in_cut :: string where
  \<open>in_cut = ''{"file_path":''\<close>

definition requests :: "(string \<times> WriteParams) list" where
  "requests =
     [(in_notes, \<lparr>FilePath = ''/w/notes.txt'', Content = ''hello''\<rparr>),
      (in_unnamed, \<lparr>FilePath = '''', Content = ''hello''\<rparr>),
      (in_named, \<lparr>FilePath = ''output.txt'', Content = ''hello''\<rparr>),
      (in_blank, \<lparr>FilePath = ''/w/a.txt'', Content = ''''\<rparr>),
      (in_new, \<lparr>FilePath = ''/w/a.txt'', Content = ''new''\<rparr>),
      (in_old, \<lparr>FilePath = ''/w/a.txt'', Content = ''old''\<rparr>),
      (in_deep, \<lparr>FilePath = ''/w/sub/a.txt'', Content = ''hello''\<rparr>),
      (in_root, \<lparr>FilePath = ''/w'', Content = ''hello''\<rparr>),
      (in_none, \<lparr>FilePath = ''/w/e.txt'', Content = ''''\<rparr>)]"

definition demo_host :: host where
  "demo_host =
     \<lparr>Unmarshal = decode requests,
      WorkingDirectory = ''/w'',
      IsAbs = (\<lambda>p. HasPrefix p ''/''),
      Join = (\<lambda>a b. a @ ''/'' @ b),
      Dir = unix_Dir,
      TrimSpace = ascii_TrimSpace,
      ToLower = ascii_ToLower,
      FormatRFC3339 = first_minute,
      GenerateDiff = whole_file_diff,
      formatDiagnostics = (\<lambda>fs. concat (map (\<lambda>f. [CHR 0x0A] @ f) fs))\<rparr>"

definition demo_ctx :: Context where
  "demo_ctx = \<lparr>sessionID = ''s1'', messageID = ''m1''\<rparr>"

text \<open>
  The working directory \<^verbatim>\<open>/w\<close> holds \<^verbatim>\<open>a.txt\<close> with the content \<^verbatim>\<open>old\<close> and the empty
  \<^verbatim>\<open>e.txt\<close>, both modified at time 10 and read by the agent at time 20; it is now 30.
  Nothing fails, the approver grants every request, no session has a version of any
  file, and no backend reports a finding.
\<close>

definition disk :: world where
  "disk =
     \<lparr>fs = [''/w'' \<mapsto> Directory 0, ''/w/a.txt'' \<mapsto> RegularFile ''old'' 10,
            ''/w/e.txt'' \<mapsto> RegularFile '''' 10],
      faults = (\<lambda>x. None),
      now = 30,
      fileRecords =
        (\<lambda>p. \<lparr>readTime = (if p = ''/w/a.txt'' \<or> p = ''/w/e.txt'' then 20 else 0),
               writeTime = 0\<rparr>),
      versions = (\<lambda>k. []),
      approver = (\<lambda>r. True),
      findings = (\<lambda>p. []),
      events = []\<rparr>"

text \<open>The same world after someone else has changed \<^verbatim>\<open>a.txt\<close> at time 25; with an
  approver who refuses; with a version store that cannot create; with a disk that cannot
  be written; and with the working directory removed.\<close>

definition edited :: world where
  "edited = disk\<lparr>fs := (fs disk)(''/w/a.txt'' \<mapsto> RegularFile ''edited'' 25)\<rparr>"

definition refusing :: world where
  "refusing = disk\<lparr>approver := (\<lambda>r. False)\<rparr>"

definition locked :: world where
  "locked = disk\<lparr>faults := (\<lambda>x. case x of Create s p c \<Rightarrow> Some ''database is locked'' | _ \<Rightarrow> None)\<rparr>"

definition full :: world where
  "full = disk\<lparr>faults := (\<lambda>x. case x of WriteFile p c \<Rightarrow> Some ''no space left on device'' | _ \<Rightarrow> None)\<rparr>"

definition gone :: world where
  "gone = disk\<lparr>fs := Map.empty\<rparr>"

section \<open>Lemmas\<close>

lemma grows_refl: "grows P w w"
  by (simp add: grows_def)

lemma grows_emit: "grows P w0 w \<Longrightarrow> P e \<Longrightarrow> grows P w0 (emit e w)"
  by (auto simp: grows_def emit_def)

lemma grows_events: "grows P w0 w \<Longrightarrow> events w' = events w \<Longrightarrow> grows P w0 w'"
  by (simp add: grows_def)

lemma grows_appended: "grows P w w' \<Longrightarrow> e \<in> set (appended w w') \<Longrightarrow> P e"
  by (auto simp: grows_def appended_def list_all_iff)

lemma appended_emit: "grows P w w3 \<Longrightarrow> appended w (emit e w3) = appended w w3 @ [e]"
  by (auto simp: grows_def appended_def emit_def)

lemma os_Stat_keeps [simp]:
  "fs (snd (os_Stat p w)) = fs w" "faults (snd (os_Stat p w)) = faults w"
  "versions (snd (os_Stat p w)) = versions w" "fileRecords (snd (os_Stat p w)) = fileRecords w"
  "findings (snd (os_Stat p w)) = findings w" "approver (snd (os_Stat p w)) = approver w"
  "now (snd (os_Stat p w)) = now w"
  by (simp_all add: os_Stat_def emit_def split: option.splits node.splits)

lemma os_ReadFile_keeps [simp]:
  "fs (snd (os_ReadFile p w)) = fs w" "faults (snd (os_ReadFile p w)) = faults w"
  "versions (snd (os_ReadFile p w)) = versions w" "fileRecords (snd (os_ReadFile p w)) = fileRecords w"
  "findings (snd (os_ReadFile p w)) = findings w" "approver (snd (os_ReadFile p w)) = approver w"
  "now (snd (os_ReadFile p w)) = now w"
  by (simp_all add: os_ReadFile_def emit_def split: option.splits node.splits)

lemma mkdirs_keeps: "f q \<noteq> None \<Longrightarrow> mkdirs ds t f q = f q"
  by (induction ds arbitrary: f) auto

lemma os_MkdirAll_keeps [simp]:
  "faults (snd (os_MkdirAll d w)) = faults w"
  "versions (snd (os_MkdirAll d w)) = versions w" "fileRecords (snd (os_MkdirAll d w)) = fileRecords w"
  "findings (snd (os_MkdirAll d w)) = findings w" "approver (snd (os_MkdirAll d w)) = approver w"
  "now (snd (os_MkdirAll d w)) = now w"
  by (simp_all add: os_MkdirAll_def emit_def split: option.splits)

lemma os_MkdirAll_fs: "fs w q \<noteq> None \<Longrightarrow> fs (snd (os_MkdirAll d w)) q = fs w q"
  by (simp add: os_MkdirAll_def emit_def mkdirs_keeps split: option.splits)

lemma permissions_Request_keeps [simp]:
  "fs (snd (permissions_Request r w)) = fs w" "faults (snd (permissions_Request r w)) = faults w"
  "versions (snd (permissions_Request r w)) = versions w" "fileRecords (snd (permissions_Request r w)) = fileRecords w"
  "findings (snd (permissions_Request r w)) = findings w" "now (snd (permissions_Request r w)) = now w"
  by (simp_all add: permissions_Request_def emit_def)

lemma os_WriteFile_keeps [simp]:
  "faults (snd (os_WriteFile p c w)) = faults w" "findings (snd (os_WriteFile p c w)) = findings w"
  by (simp_all add: os_WriteFile_def emit_def split: option.splits node.splits)

lemma read_old_content_keeps [simp]:
  "fs (snd (read_old_content p fi w)) = fs w" "faults (snd (read_old_content p fi w)) = faults w"
  "versions (snd (read_old_content p fi w)) = versions w" "fileRecords (snd (read_old_content p fi w)) = fileRecords w"
  "findings (snd (read_old_content p fi w)) = findings w" "approver (snd (read_old_content p fi w)) = approver w"
  "now (snd (read_old_content p fi w)) = now w"
  by (simp_all add: read_old_content_def case_prod_beta split: option.splits sum.splits)

lemma os_Stat_grows:
  "(\<And>e. plain e \<Longrightarrow> P e) \<Longrightarrow> grows P w0 w \<Longrightarrow> grows P w0 (snd (os_Stat p w))"
  by (auto simp: os_Stat_def intro!: grows_emit split: option.splits node.splits)

lemma os_ReadFile_grows:
  "(\<And>e. plain e \<Longrightarrow> P e) \<Longrightarrow> grows P w0 w \<Longrightarrow> grows P w0 (snd (os_ReadFile p w))"
  by (auto simp: os_ReadFile_def intro!: grows_emit split: option.splits node.splits)

lemma os_MkdirAll_grows:
  "(\<And>e. plain e \<Longrightarrow> P e) \<Longrightarrow> grows P w0 w \<Longrightarrow> grows P w0 (snd (os_MkdirAll p w))"
  by (auto simp: os_MkdirAll_def intro!: grows_emit elim: grows_events split: option.splits)

lemma read_old_content_grows:
  "(\<And>e. plain e \<Longrightarrow> P e) \<Longrightarrow> grows P w0 w \<Longrightarrow> grows P w0 (snd (read_old_content p fi w))"
  by (auto simp: read_old_content_def case_prod_beta intro: os_ReadFile_grows split: option.splits sum.splits)

lemma files_GetByPathAndSession_grows:
  "(\<And>e. plain e \<Longrightarrow> P e) \<Longrightarrow> grows P w0 w \<Longrightarrow> grows P w0 (snd (files_GetByPathAndSession p s w))"
  by (auto simp: files_GetByPathAndSession_def intro!: grows_emit split: option.splits list.splits)

lemma files_Create_grows:
  "(\<And>e. plain e \<Longrightarrow> P e) \<Longrightarrow> grows P w0 w \<Longrightarrow> grows P w0 (snd (files_Create s p c w))"
  by (auto simp: files_Create_def intro!: grows_emit elim: grows_events split: option.splits)

lemma log_version_error_grows:
  "(\<And>e. plain e \<Longrightarrow> P e) \<Longrightarrow> grows P w0 w \<Longrightarrow>
   grows P w0 (log_version_error (files_CreateVersion s p c w))"
  by (auto simp: log_version_error_def files_CreateVersion_def logging_Debug_def
      intro!: grows_emit elim: grows_events split: option.splits)

lemma registry_grows:
  "(\<And>e. plain e \<Longrightarrow> P e) \<Longrightarrow> grows P w0 w \<Longrightarrow> grows P w0 (recordFileWrite p w)"
  "(\<And>e. plain e \<Longrightarrow> P e) \<Longrightarrow> grows P w0 w \<Longrightarrow> grows P w0 (recordFileRead p w)"
  "(\<And>e. plain e \<Longrightarrow> P e) \<Longrightarrow> grows P w0 w \<Longrightarrow> grows P w0 (waitForLspDiagnostics p w)"
  by (auto simp: grows_def recordFileWrite_def recordFileRead_def waitForLspDiagnostics_def emit_def)

lemma finish_grows:
  "(\<And>e. plain e \<Longrightarrow> P e) \<Longrightarrow> grows P w0 w \<Longrightarrow> grows P w0 (snd (finish h p d w))"
  by (cases d) (simp add: finish_def Let_def registry_grows)

lemma record_history_grows:
  "(\<And>e. plain e \<Longrightarrow> P e) \<Longrightarrow> grows P w0 w \<Longrightarrow>
   grows P w0 (snd (record_history h ctx params p old d w))"
  by (auto simp: record_history_def Let_def case_prod_beta
      intro!: finish_grows log_version_error_grows files_Create_grows files_GetByPathAndSession_grows
      split: option.splits if_splits)

lemma permissions_Request_grows:
  "P (Granted r) \<Longrightarrow> P (Denied r) \<Longrightarrow> grows P w0 w \<Longrightarrow> grows P w0 (snd (permissions_Request r w))"
  by (simp add: permissions_Request_def grows_emit)

lemma os_WriteFile_Some:
  "fst (os_WriteFile p c w) = Some e \<Longrightarrow> snd (os_WriteFile p c w) = emit (Failed (WriteFile p c) e) w"
  by (auto simp: os_WriteFile_def split: option.splits node.splits)

lemma os_WriteFile_None_grows:
  "fst (os_WriteFile p c w) = None \<Longrightarrow> (\<And>e. plain e \<Longrightarrow> P e) \<Longrightarrow> grows P w0 w \<Longrightarrow>
   grows P w0 (snd (os_WriteFile p c w))"
  by (auto simp: os_WriteFile_def intro!: grows_emit elim: grows_events split: option.splits node.splits)

lemma write_file_grows:
  assumes pl: "\<And>e. plain e \<Longrightarrow> P e"
    and rq: "\<And>dd. P (Granted (permission_request h ctx p dd))"
            "\<And>dd. P (Denied (permission_request h ctx p dd))"
    and g: "grows P w0 w"
  shows "grows P w0 (snd (write_file h ctx params p fi w)) \<or>
    (\<exists>e w3. write_file h ctx params p fi w =
        (Inl (Errorf (''error writing file: '' @ e)), emit (Failed (WriteFile p (Content params)) e) w3) \<and>
      grows P w0 w3 \<and> versions w3 = versions w \<and> fileRecords w3 = fileRecords w)"
proof -
  let ?w1 = "snd (os_MkdirAll (Dir h p) w)"
  let ?w2 = "snd (read_old_content p fi ?w1)"
  let ?old = "fst (read_old_content p fi ?w1)"
  let ?d = "GenerateDiff h ?old (Content params) p"
  let ?R = "permission_request h ctx p (fst ?d)"
  let ?w3 = "snd (permissions_Request ?R ?w2)"
  let ?w4 = "snd (os_WriteFile p (Content params) ?w3)"
  have g1: "grows P w0 ?w1" using pl g by (rule os_MkdirAll_grows)
  have g2: "grows P w0 ?w2" using pl g1 by (rule read_old_content_grows)
  have g3: "grows P w0 ?w3" using rq g2 by (rule permissions_Request_grows)
  have k3: "versions ?w3 = versions w" "fileRecords ?w3 = fileRecords w" by simp_all
  show ?thesis
  proof (cases "fst (os_MkdirAll (Dir h p) w)")
    case (Some e)
    then show ?thesis using g1 by (simp add: write_file_def case_prod_beta)
  next
    case mk: None
    show ?thesis
    proof (cases "sessionID ctx = '''' \<or> messageID ctx = ''''")
      case True
      then show ?thesis using g2 mk by (simp add: write_file_def case_prod_beta)
    next
      case ses: False
      show ?thesis
      proof (cases "fst (permissions_Request ?R ?w2)")
        case False
        then show ?thesis using g3 mk ses by (simp add: write_file_def case_prod_beta Let_def)
      next
        case ok: True
        show ?thesis
        proof (cases "fst (os_WriteFile p (Content params) ?w3)")
          case None
          have "grows P w0 ?w4" using None pl g3 by (rule os_WriteFile_None_grows)
          then have "grows P w0 (snd (record_history h ctx params p ?old ?d ?w4))"
            using pl by (simp add: record_history_grows)
          then show ?thesis using None mk ses ok
            by (simp add: write_file_def case_prod_beta Let_def)
        next
          case (Some e)
          have "write_file h ctx params p fi w =
            (Inl (Errorf (''error writing file: '' @ e)), emit (Failed (WriteFile p (Content params)) e) ?w3)"
            using Some mk ses ok os_WriteFile_Some [OF Some]
            by (simp add: write_file_def case_prod_beta Let_def)
          then show ?thesis using g3 k3 by blast
        qed
      qed
    qed
  qed
qed

lemma plain_not_write_failure: "plain e \<Longrightarrow> \<not> write_failure e"
  by (cases e rule: plain.cases) simp_all

lemma with_default_name_Content [simp]: "Content (with_default_name h p) = Content p"
  by (simp add: with_default_name_def)

lemma Run_grows:
  assumes pl: "\<And>e. plain e \<Longrightarrow> P e"
    and rq: "\<And>params0 dd. Unmarshal h (Input call) = Inr params0 \<Longrightarrow>
                P (Granted (permission_request h ctx (target h params0) dd)) \<and>
                P (Denied (permission_request h ctx (target h params0) dd))"
  shows "grows P w (snd (Run h ctx call w)) \<or>
    (\<exists>e w3 params0. Unmarshal h (Input call) = Inr params0 \<and>
      Run h ctx call w =
        (Inl (Errorf (''error writing file: '' @ e)),
         emit (Failed (WriteFile (target h params0) (Content params0)) e) w3) \<and>
      grows P w w3 \<and> versions w3 = versions w \<and> fileRecords w3 = fileRecords w)"
proof (cases "Unmarshal h (Input call)")
  case (Inl err)
  then show ?thesis by (simp add: Run_def grows_refl)
next
  case (Inr params0)
  let ?params = "with_default_name h params0"
  let ?p = "target h params0"
  let ?w1 = "snd (os_Stat ?p w)"
  let ?w2 = "snd (os_ReadFile ?p ?w1)"
  have g1: "grows P w ?w1" using pl grows_refl by (rule os_Stat_grows)
  have g2: "grows P w ?w2" using pl g1 by (rule os_ReadFile_grows)
  have rq': "\<And>dd. P (Granted (permission_request h ctx ?p dd))"
            "\<And>dd. P (Denied (permission_request h ctx ?p dd))"
    using rq [OF Inr] by simp_all
  have wf: "grows P w (snd (write_file h ctx ?params ?p fi w')) \<or>
      (\<exists>e w3. write_file h ctx ?params ?p fi w' =
        (Inl (Errorf (''error writing file: '' @ e)), emit (Failed (WriteFile ?p (Content params0)) e) w3) \<and>
      grows P w w3 \<and> versions w3 = versions w \<and> fileRecords w3 = fileRecords w)"
    if a: "grows P w w'" "versions w' = versions w" "fileRecords w' = fileRecords w" for fi w'
    using write_file_grows [OF pl rq' a(1), where params = "?params" and fi = fi] a(2,3) by simp
  show ?thesis
  proof (cases "Content params0 = ''''")
    case True
    then show ?thesis using Inr by (simp add: Run_def grows_refl)
  next
    case c: False
    show ?thesis
    proof (cases "fst (os_Stat ?p w)")
      case st: (Inl err)
      show ?thesis
      proof (cases "err = NotExist")
        case True
        then show ?thesis using Inr c st wf [OF g1, of None]
          by (simp add: Run_def Let_def case_prod_beta target_def)
      next
        case False
        then show ?thesis using Inr c st g1
          by (simp add: Run_def Let_def case_prod_beta target_def)
      qed
    next
      case st: (Inr fileInfo)
      show ?thesis
      proof (cases "IsDir fileInfo \<or> ModTime fileInfo > getLastReadTime ?p ?w1")
        case True
        then show ?thesis using Inr c st g1
          by (auto simp: Run_def Let_def case_prod_beta target_def)
      next
        case ns: False
        show ?thesis
        proof (cases "fst (os_ReadFile ?p ?w1) = Inr (Content params0)")
          case True
          then show ?thesis using Inr c st ns g2
            by (simp add: Run_def Let_def case_prod_beta target_def)
        next
          case False
          then show ?thesis using Inr c st ns wf [OF g2, of "Some fileInfo"]
            by (simp add: Run_def Let_def case_prod_beta target_def)
        qed
      qed
    qed
  qed
qed

lemma finish_eq:
  "finish h p d w = (Inr (success h p d (findings w p)),
     waitForLspDiagnostics p (recordFileRead p (recordFileWrite p w)))"
  by (cases d)
     (simp add: finish_def success_def Let_def getDiagnostics_def WithResponseMetadata_def
        NewTextResponse_def waitForLspDiagnostics_def recordFileRead_def recordFileWrite_def emit_def)

lemma files_keep_findings [simp]:
  "findings (snd (files_GetByPathAndSession p s w)) = findings w"
  "findings (snd (files_Create s p c w)) = findings w"
  "findings (log_version_error (files_CreateVersion s p c w)) = findings w"
  by (simp_all add: files_GetByPathAndSession_def files_Create_def files_CreateVersion_def
        log_version_error_def logging_Debug_def emit_def split: option.splits list.splits)

lemma record_history_result:
  "fst (record_history h ctx params p old d w) = Inr r \<Longrightarrow> r = success h p d (findings w p)"
  by (simp add: record_history_def finish_eq Let_def case_prod_beta split: option.splits if_splits)

lemma os_ReadFile_result:
  "fst (os_ReadFile p w) =
     (case faults w (ReadFile p) of
        Some e \<Rightarrow> Inl e
      | None \<Rightarrow> (case fs w p of
           Some (RegularFile c m) \<Rightarrow> Inr c
         | Some (Directory m) \<Rightarrow> Inl ''is a directory''
         | None \<Rightarrow> Inl (Error NotExist)))"
  by (simp add: os_ReadFile_def split: option.splits node.splits)

lemma os_Stat_result:
  "fst (os_Stat p w) =
     (case faults w (Stat p) of
        Some e \<Rightarrow> Inl (IOError e)
      | None \<Rightarrow> (case fs w p of
           Some (RegularFile c m) \<Rightarrow> Inr \<lparr>IsDir = False, ModTime = m\<rparr>
         | Some (Directory m) \<Rightarrow> Inr \<lparr>IsDir = True, ModTime = m\<rparr>
         | None \<Rightarrow> Inl NotExist))"
  by (simp add: os_Stat_def split: option.splits node.splits)

lemma read_old_content_result:
  assumes "agrees fi (fs w p)"
  shows "fst (read_old_content p fi w) = pre_image w p"
  using assms
  by (cases "fs w p" rule: is_regular.cases)
     (auto simp: agrees_def read_old_content_def pre_image_def case_prod_beta os_ReadFile_result
           split: option.splits)

lemma write_file_result:
  assumes r: "fst (write_file h ctx params p fi w) = Inr r" and a: "agrees fi (fs w p)"
  shows "r = success h p (GenerateDiff h (pre_image w p) (Content params) p) (findings w p)"
proof -
  let ?w1 = "snd (os_MkdirAll (Dir h p) w)"
  have old: "fst (read_old_content p fi ?w1) = pre_image w p"
  proof (cases fi)
    case None
    then show ?thesis using a by (simp add: read_old_content_def pre_image_def agrees_def)
  next
    case (Some i)
    then have "fs w p \<noteq> None" using a
      by (cases "fs w p" rule: is_regular.cases) (simp_all add: agrees_def)
    then have "fs ?w1 p = fs w p" by (rule os_MkdirAll_fs)
    then have "agrees fi (fs ?w1 p)" "pre_image ?w1 p = pre_image w p"
      using a by (simp_all add: pre_image_def cong: option.case_cong node.case_cong)
    then show ?thesis by (simp add: read_old_content_result)
  qed
  from r show ?thesis
    by (auto simp: write_file_def case_prod_beta Let_def old
          dest!: record_history_result split: option.splits if_splits bool.splits)
qed

lemma write_file_not_error:
  "fst (write_file h ctx params p fi w) = Inr r \<Longrightarrow> \<not> IsError r"
  by (auto simp: write_file_def case_prod_beta Let_def success_def
          dest!: record_history_result split: option.splits if_splits bool.splits)

lemma os_Stat_NotExist: "fst (os_Stat p w) = Inl NotExist \<Longrightarrow> fs w p = None"
  by (simp add: os_Stat_result split: option.splits node.splits)

lemma os_Stat_regular:
  "fst (os_Stat p w) = Inr i \<Longrightarrow> \<not> IsDir i \<Longrightarrow>
   faults w (Stat p) = None \<and> (\<exists>c. fs w p = Some (RegularFile c (ModTime i)))"
  by (auto simp: os_Stat_result split: option.splits node.splits)

lemma pre_image_cong:
  "fs w' = fs w \<Longrightarrow> faults w' = faults w \<Longrightarrow> pre_image w' p = pre_image w p"
  by (simp add: pre_image_def cong: option.case_cong node.case_cong)

lemma Run_success:
  assumes r: "fst (Run h ctx call w) = Inr r" and ok: "\<not> IsError r"
  shows "\<exists>params0. Unmarshal h (Input call) = Inr params0 \<and>
     r = success h (target h params0)
           (GenerateDiff h (pre_image w (target h params0)) (Content params0) (target h params0))
           (findings w (target h params0))"
proof (cases "Unmarshal h (Input call)")
  case (Inl err)
  then show ?thesis using r ok by (auto simp: Run_def NewTextErrorResponse_def)
next
  case (Inr params0)
  let ?params = "with_default_name h params0"
  let ?p = "target h params0"
  let ?w1 = "snd (os_Stat ?p w)"
  let ?w2 = "snd (os_ReadFile ?p ?w1)"
  have wf: "r = success h ?p (GenerateDiff h (pre_image w ?p) (Content params0) ?p) (findings w ?p)"
    if a: "fst (write_file h ctx ?params ?p fi w') = Inr r" "agrees fi (fs w ?p)"
      "fs w' = fs w" "faults w' = faults w" "findings w' = findings w" for fi w'
    using write_file_result [OF a(1)] a(2-) pre_image_cong [OF a(3,4)] by simp
  show ?thesis
  proof (cases "Content params0 = ''''")
    case True
    then show ?thesis using Inr r ok by (auto simp: Run_def NewTextErrorResponse_def)
  next
    case c: False
    show ?thesis
    proof (cases "fst (os_Stat ?p w)")
      case st: (Inl err)
      show ?thesis
      proof (cases "err = NotExist")
        case True
        then have "agrees None (fs w ?p)" using st os_Stat_NotExist by (simp add: agrees_def)
        moreover have "fst (write_file h ctx ?params ?p None ?w1) = Inr r"
          using Inr c st True r by (simp add: Run_def Let_def case_prod_beta target_def)
        ultimately show ?thesis using Inr wf [of None ?w1] by simp
      next
        case False
        then show ?thesis using Inr c st r
          by (simp add: Run_def Let_def case_prod_beta target_def)
      qed
    next
      case st: (Inr fileInfo)
      show ?thesis
      proof (cases "IsDir fileInfo \<or> ModTime fileInfo > getLastReadTime ?p ?w1")
        case True
        then show ?thesis using Inr c st r ok
          by (auto simp: Run_def Let_def case_prod_beta target_def NewTextErrorResponse_def
                split: if_splits)
      next
        case ns: False
        show ?thesis
        proof (cases "fst (os_ReadFile ?p ?w1) = Inr (Content params0)")
          case True
          then show ?thesis using Inr c st ns r ok
            by (auto simp: Run_def Let_def case_prod_beta target_def NewTextErrorResponse_def)
        next
          case False
          have "agrees (Some fileInfo) (fs w ?p)"
            using os_Stat_regular [OF st] ns by (auto simp: agrees_def)
          moreover have "fst (write_file h ctx ?params ?p (Some fileInfo) ?w2) = Inr r"
            using Inr c st ns False r by (simp add: Run_def Let_def case_prod_beta target_def)
          ultimately show ?thesis using Inr wf [of "Some fileInfo" ?w2] by simp
        qed
      qed
    qed
  qed
qed

lemma generateDefaultFilename_nonempty: "generateDefaultFilename h c \<noteq> ''''"
  by (simp add: generateDefaultFilename_def Let_def)

lemma stale_not_unchanged: "stale_message h p m r \<noteq> unchanged_message p"
  by (simp add: stale_message_def unchanged_message_def)

lemma stale_not_directory: "stale_message h p m r \<noteq> ''Path is a directory, not a file: '' @ p'"
  by (simp add: stale_message_def)

lemma NewTextErrorResponse_eq [simp]:
  "NewTextErrorResponse a = NewTextErrorResponse b \<longleftrightarrow> a = b"
  by (simp add: NewTextErrorResponse_def)

lemma plain_asks: "plain e \<Longrightarrow> asks dir p e"
  by (cases e rule: plain.cases) (simp_all add: asks_def)

text \<open>
  What the code does keep of C2 and C4: a failure to append a version never decides the
  outcome, and a call that returns \<^verbatim>\<open>ErrorPermissionDenied\<close> leaves the version
  store, the timestamp registry and every existing file or directory as they were.
\<close>

lemma record_history_outcome:
  "(\<exists>e. fst (record_history h ctx params p old d w) =
          Inl (Errorf (''error creating file history: '' @ e))) \<or>
   fst (record_history h ctx params p old d w) = Inr (success h p d (findings w p))"
  by (simp add: record_history_def finish_eq Let_def case_prod_beta split: option.splits)

lemma write_file_denied:
  assumes "fst (write_file h ctx params p fi w) = Inl ErrorPermissionDenied"
  shows "versions (snd (write_file h ctx params p fi w)) = versions w \<and>
         fileRecords (snd (write_file h ctx params p fi w)) = fileRecords w \<and>
         (fs w q \<noteq> None \<longrightarrow> fs (snd (write_file h ctx params p fi w)) q = fs w q)"
proof -
  let ?w1 = "snd (os_MkdirAll (Dir h p) w)"
  let ?w2 = "snd (read_old_content p fi ?w1)"
  let ?old = "fst (read_old_content p fi ?w1)"
  let ?d = "GenerateDiff h ?old (Content params) p"
  let ?R = "permission_request h ctx p (fst ?d)"
  let ?w3 = "snd (permissions_Request ?R ?w2)"
  let ?w4 = "snd (os_WriteFile p (Content params) ?w3)"
  have hist: "fst (record_history h ctx params p ?old ?d ?w4) \<noteq> Inl ErrorPermissionDenied"
    using record_history_outcome [of h ctx params p ?old ?d ?w4] by auto
  have denied: "snd (write_file h ctx params p fi w) = ?w3"
    using assms hist
    by (simp add: write_file_def case_prod_beta Let_def split: option.splits if_splits bool.splits)
  show ?thesis
    by (simp add: denied os_MkdirAll_fs)
qed

lemma denied_call_keeps_books:
  assumes "fst (Run h ctx call w) = Inl ErrorPermissionDenied"
  shows "versions (snd (Run h ctx call w)) = versions w \<and>
         fileRecords (snd (Run h ctx call w)) = fileRecords w \<and>
         (fs w q \<noteq> None \<longrightarrow> fs (snd (Run h ctx call w)) q = fs w q)"
proof (cases "Unmarshal h (Input call)")
  case (Inl err)
  then show ?thesis using assms by (simp add: Run_def)
next
  case (Inr params0)
  let ?params = "with_default_name h params0"
  let ?p = "target h params0"
  let ?w1 = "snd (os_Stat ?p w)"
  let ?w2 = "snd (os_ReadFile ?p ?w1)"
  have wf: "versions (snd (write_file h ctx ?params ?p fi w')) = versions w \<and>
         fileRecords (snd (write_file h ctx ?params ?p fi w')) = fileRecords w \<and>
         (fs w q \<noteq> None \<longrightarrow> fs (snd (write_file h ctx ?params ?p fi w')) q = fs w q)"
    if a: "fst (write_file h ctx ?params ?p fi w') = Inl ErrorPermissionDenied"
      "versions w' = versions w" "fileRecords w' = fileRecords w" "fs w' = fs w" for fi w'
    using write_file_denied [OF a(1), of q] a(2-) by simp
  from assms Inr show ?thesis
    using wf [of None ?w1] wf [of _ ?w2]
    by (auto simp: Run_def Let_def case_prod_beta target_def split: if_splits sum.splits)
qed

section \<open>The claims\<close>

text \<open>
  Claim C1, amended. For every write tool call whose input parses and whose content is not
  empty: the call is answered with the stale-write rejection exactly when \<^verbatim>\<open>os.Stat\<close>
  succeeds on the target, finds a regular file there, and the file's modification time is
  strictly later than the recorded last-read time of the path. The last-write time and
  the content on disk play no part, and a path that does not exist is never rejected as
  stale. On rejection the message names the path, the modification time and the
  last-read time, and the world is as before but for the log entry of the \<^verbatim>\<open>os.Stat\<close>
  call: no filesystem mutation, no permission request, no version write.
\<close>

theorem stale_write_rejection:
  assumes parse: "Unmarshal h (Input call) = Inr params0"
    and content: "Content params0 \<noteq> ''''"
  shows "((\<exists>m' r'. fst (Run h ctx call w) =
              Inr (NewTextErrorResponse (stale_message h (target h params0) m' r'))) \<longleftrightarrow>
          faults w (Stat (target h params0)) = None \<and>
          (\<exists>c m. fs w (target h params0) = Some (RegularFile c m) \<and>
                 m > readTime (fileRecords w (target h params0)))) \<and>
         (faults w (Stat (target h params0)) = None \<longrightarrow>
          fs w (target h params0) = Some (RegularFile c m) \<longrightarrow>
          m > readTime (fileRecords w (target h params0)) \<longrightarrow>
          Run h ctx call w =
            (Inr (NewTextErrorResponse
                   (stale_message h (target h params0) m (readTime (fileRecords w (target h params0))))),
             emit (Ok (Stat (target h params0))) w))"
proof -
  let ?p = "target h params0"
  let ?R = "readTime (fileRecords w ?p)"
  let ?params = "with_default_name h params0"
  let ?w1 = "snd (os_Stat ?p w)"
  let ?w2 = "snd (os_ReadFile ?p ?w1)"
  have hit: "Run h ctx call w =
            (Inr (NewTextErrorResponse (stale_message h ?p m ?R)), emit (Ok (Stat ?p)) w)"
    if "faults w (Stat ?p) = None" "fs w ?p = Some (RegularFile c m)" "m > ?R" for c m
    using that assms
    by (simp add: Run_def Let_def target_def os_Stat_def getLastReadTime_def emit_def)
  have miss: "fst (Run h ctx call w) \<noteq> Inr (NewTextErrorResponse (stale_message h ?p m' r'))"
    if no: "\<not> (faults w (Stat ?p) = None \<and> (\<exists>c m. fs w ?p = Some (RegularFile c m) \<and> m > ?R))"
    for m' r'
  proof (cases "fst (os_Stat ?p w)")
    case st: (Inl err)
    show ?thesis
    proof (cases "err = NotExist")
      case True
      then show ?thesis using parse content st
          write_file_not_error [of h ctx ?params ?p None ?w1 "NewTextErrorResponse (stale_message h ?p m' r')"]
        by (auto simp: Run_def Let_def case_prod_beta target_def NewTextErrorResponse_def)
    next
      case False
      then show ?thesis using parse content st
        by (simp add: Run_def Let_def case_prod_beta target_def)
    qed
  next
    case st: (Inr fileInfo)
    show ?thesis
    proof (cases "IsDir fileInfo")
      case True
      then show ?thesis using parse content st stale_not_directory [of h ?p m' r' ?p]
        by (auto simp: Run_def Let_def case_prod_beta target_def)
    next
      case nd: False
      from os_Stat_regular [OF st nd] no
      have fresh: "\<not> ModTime fileInfo > getLastReadTime ?p ?w1"
        by (auto simp: getLastReadTime_def)
      show ?thesis
      proof (cases "fst (os_ReadFile ?p ?w1) = Inr (Content params0)")
        case True
        then show ?thesis using parse content st nd fresh stale_not_unchanged [of h ?p m' r']
          by (auto simp: Run_def Let_def case_prod_beta target_def)
      next
        case False
        then show ?thesis using parse content st nd fresh
          write_file_not_error [of h ctx ?params ?p "Some fileInfo" ?w2 "NewTextErrorResponse (stale_message h ?p m' r')"]
          by (auto simp: Run_def Let_def case_prod_beta target_def NewTextErrorResponse_def)
      qed
    qed
  qed
  show ?thesis
    using hit miss by (metis fst_conv)
qed

text \<open>
  The amended C1 at work: \<^verbatim>\<open>a.txt\<close> was modified at 25, after the agent's last read at
  20, and the call that would replace its content is rejected.
\<close>

theorem stale_write_rejection_witness:
  "Unmarshal demo_host (Input \<lparr>Input = in_new\<rparr>) = Inr \<lparr>FilePath = ''/w/a.txt'', Content = ''new''\<rparr> \<and>
   Content \<lparr>FilePath = ''/w/a.txt'', Content = ''new''\<rparr> \<noteq> '''' \<and>
   faults edited (Stat ''/w/a.txt'') = None \<and>
   fs edited ''/w/a.txt'' = Some (RegularFile ''edited'' 25) \<and>
   25 > readTime (fileRecords edited ''/w/a.txt'') \<and>
   Run demo_host demo_ctx \<lparr>Input = in_new\<rparr> edited =
     (Inr (NewTextErrorResponse (stale_message demo_host ''/w/a.txt'' 25 20)),
      emit (Ok (Stat ''/w/a.txt'')) edited)"
proof -
  have p: "Unmarshal demo_host (Input \<lparr>Input = in_new\<rparr>) = Inr \<lparr>FilePath = ''/w/a.txt'', Content = ''new''\<rparr>"
    by code_simp
  have c: "Content \<lparr>FilePath = ''/w/a.txt'', Content = ''new''\<rparr> \<noteq> ''''"
    by simp
  have t: "target demo_host \<lparr>FilePath = ''/w/a.txt'', Content = ''new''\<rparr> = ''/w/a.txt''"
    by code_simp
  have f: "faults edited (Stat ''/w/a.txt'') = None"
    by code_simp
  have d: "fs edited ''/w/a.txt'' = Some (RegularFile ''edited'' 25)"
    by code_simp
  have r: "readTime (fileRecords edited ''/w/a.txt'') = 20"
    by code_simp
  from stale_write_rejection [OF p c, where w = edited and c = "''edited''" and m = 25 and ctx = demo_ctx]
  show ?thesis using p c f d r by (simp add: t)
qed

text \<open>
  C1 as stated, for every write tool call targeting an existing file, fails for a call
  with empty content: \<^verbatim>\<open>a.txt\<close> was modified at 25, after the agent's last read at 20,
  yet the answer is \<^verbatim>\<open>content is required\<close>, not the stale-write rejection. The content
  is checked at lines 445 to 447, before the file is looked at.
\<close>

theorem stale_write_rejection_counterexample:
  "Unmarshal demo_host (Input \<lparr>Input = in_blank\<rparr>) = Inr \<lparr>FilePath = ''/w/a.txt'', Content = ''''\<rparr> \<and>
   faults edited (Stat ''/w/a.txt'') = None \<and>
   fs edited ''/w/a.txt'' = Some (RegularFile ''edited'' 25) \<and>
   readTime (fileRecords edited ''/w/a.txt'') = 20 \<and>
   fst (Run demo_host demo_ctx \<lparr>Input = in_blank\<rparr> edited) =
     Inr (NewTextErrorResponse ''content is required'') \<and>
   fst (Run demo_host demo_ctx \<lparr>Input = in_blank\<rparr> edited) \<noteq>
     Inr (NewTextErrorResponse (stale_message demo_host ''/w/a.txt'' 25 20))"
  by code_simp

text \<open>
  Claim C2 says that a denied call leaves no filesystem mutation behind. The code calls
  \<^verbatim>\<open>os.MkdirAll\<close> at line 476, before the permission request of line 504: with an
  approver who refuses, a call for \<^verbatim>\<open>/w/sub/a.txt\<close> returns
  \<^verbatim>\<open>ErrorPermissionDenied\<close>, and the directory \<^verbatim>\<open>/w/sub\<close>, absent before, exists
  afterwards. Here the code is run on that input.
\<close>

theorem denied_write_has_created_directory:
  "fst (Run demo_host demo_ctx \<lparr>Input = in_deep\<rparr> refusing) = Inl ErrorPermissionDenied \<and>
   fs refusing ''/w/sub'' = None \<and>
   fs (snd (Run demo_host demo_ctx \<lparr>Input = in_deep\<rparr> refusing)) ''/w/sub'' = Some (Directory 30) \<and>
   trace demo_host demo_ctx \<lparr>Input = in_deep\<rparr> refusing =
     [Failed (Stat ''/w/sub/a.txt'') ''no such file or directory'',
      Ok (MkdirAll ''/w/sub''),
      Denied \<lparr>SessionID = ''s1'', Path = ''/w'', ToolName = ''write'', Action = ''write'',
              Description = ''Create file /w/sub/a.txt'',
              Params = \<lparr>perm_FilePath = ''/w/sub/a.txt'', perm_Diff = ''+hello'' @ [CHR 0x0A]\<rparr>\<rparr>]"
  by code_simp

text \<open>
  Claim C3 says that with no version recorded yet the pre-image is followed directly by
  the new content. After \<^verbatim>\<open>Create\<close> the code still compares the content of the zero
  \<^verbatim>\<open>file\<close> that the failed lookup returned with the old content (line 535), so for an
  existing file that is not empty it appends the pre-image a second time. Here the code
  is run on the first write of a session to \<^verbatim>\<open>a.txt\<close>, which holds \<^verbatim>\<open>old\<close>.
\<close>

theorem first_write_records_pre_image_twice:
  "fs disk ''/w/a.txt'' = Some (RegularFile ''old'' 10) \<and>
   versions disk (''s1'', ''/w/a.txt'') = [] \<and>
   IsError (projr (fst (Run demo_host demo_ctx \<lparr>Input = in_new\<rparr> disk))) = False \<and>
   fs (snd (Run demo_host demo_ctx \<lparr>Input = in_new\<rparr> disk)) ''/w/a.txt'' = Some (RegularFile ''new'' 30) \<and>
   versions (snd (Run demo_host demo_ctx \<lparr>Input = in_new\<rparr> disk)) (''s1'', ''/w/a.txt'') =
     [''old'', ''old'', ''new'']"
  by code_simp

text \<open>
  Claim C4 says that no failure of the version store fails a call whose write succeeded.
  Where \<^verbatim>\<open>Create\<close> fails, line 532 returns an error, under the comment
  \<^verbatim>\<open>Log error but don't fail the operation\<close>. Here the code is run with a version store
  that cannot create: the file is written and the call fails.
\<close>

theorem failed_create_fails_written_call:
  "fst (Run demo_host demo_ctx \<lparr>Input = in_notes\<rparr> locked) =
     Inl (Errorf ''error creating file history: database is locked'') \<and>
   fs locked ''/w/notes.txt'' = None \<and>
   fs (snd (Run demo_host demo_ctx \<lparr>Input = in_notes\<rparr> locked)) ''/w/notes.txt'' =
     Some (RegularFile ''hello'' 30)"
  by code_simp

text \<open>
  Claim C5, amended. For every write tool call whose input parses, whose content is not
  empty, whose target is a regular file that is not stale, can be read and holds exactly
  the new content: the call ends with the message that no changes were made, and the
  world is as before but for the log entries of \<^verbatim>\<open>os.Stat\<close> and \<^verbatim>\<open>os.ReadFile\<close>: no
  permission request, no filesystem mutation, no version write. Running the same call
  again on the resulting world gives the same response and makes the same two calls.
\<close>

theorem unchanged_content_is_a_noop:
  assumes parse: "Unmarshal h (Input call) = Inr params0"
    and content: "Content params0 \<noteq> ''''"
    and stat: "faults w (Stat (target h params0)) = None"
    and disk: "fs w (target h params0) = Some (RegularFile (Content params0) m)"
    and fresh: "\<not> m > readTime (fileRecords w (target h params0))"
    and readable: "faults w (ReadFile (target h params0)) = None"
  shows "Run h ctx call w =
           (Inr (NewTextErrorResponse (unchanged_message (target h params0))),
            emit (Ok (ReadFile (target h params0))) (emit (Ok (Stat (target h params0))) w)) \<and>
         fst (Run h ctx call (snd (Run h ctx call w))) = fst (Run h ctx call w) \<and>
         trace h ctx call (snd (Run h ctx call w)) = trace h ctx call w"
proof -
  have one: "Run h ctx call v =
           (Inr (NewTextErrorResponse (unchanged_message (target h params0))),
            emit (Ok (ReadFile (target h params0))) (emit (Ok (Stat (target h params0))) v))"
    if "faults v = faults w" "fs v = fs w" "fileRecords v = fileRecords w" for v
    using that assms
    by (simp add: Run_def Let_def target_def os_Stat_def os_ReadFile_def getLastReadTime_def emit_def)
  let ?v = "emit (Ok (ReadFile (target h params0))) (emit (Ok (Stat (target h params0))) w)"
  have "Run h ctx call ?v =
           (Inr (NewTextErrorResponse (unchanged_message (target h params0))),
            emit (Ok (ReadFile (target h params0))) (emit (Ok (Stat (target h params0))) ?v))"
    by (rule one) (simp_all add: emit_def)
  then show ?thesis using one [of w]
    by (simp add: trace_def emit_def)
qed

text \<open>The amended C5 at work: writing \<^verbatim>\<open>old\<close> to \<^verbatim>\<open>a.txt\<close>, which holds \<^verbatim>\<open>old\<close>.\<close>

theorem unchanged_content_is_a_noop_witness:
  "Unmarshal demo_host (Input \<lparr>Input = in_old\<rparr>) = Inr \<lparr>FilePath = ''/w/a.txt'', Content = ''old''\<rparr> \<and>
   Content \<lparr>FilePath = ''/w/a.txt'', Content = ''old''\<rparr> \<noteq> '''' \<and>
   faults disk (Stat ''/w/a.txt'') = None \<and>
   fs disk ''/w/a.txt'' = Some (RegularFile ''old'' 10) \<and>
   \<not> 10 > readTime (fileRecords disk ''/w/a.txt'') \<and>
   faults disk (ReadFile ''/w/a.txt'') = None \<and>
   Run demo_host demo_ctx \<lparr>Input = in_old\<rparr> disk =
     (Inr (NewTextErrorResponse (unchanged_message ''/w/a.txt'')),
      emit (Ok (ReadFile ''/w/a.txt'')) (emit (Ok (Stat ''/w/a.txt'')) disk)) \<and>
   fst (Run demo_host demo_ctx \<lparr>Input = in_old\<rparr> (snd (Run demo_host demo_ctx \<lparr>Input = in_old\<rparr> disk))) =
     fst (Run demo_host demo_ctx \<lparr>Input = in_old\<rparr> disk)"
proof -
  let ?params = "\<lparr>FilePath = ''/w/a.txt'', Content = ''old''\<rparr>"
  have p: "Unmarshal demo_host (Input \<lparr>Input = in_old\<rparr>) = Inr ?params"
    by code_simp
  have c: "Content ?params \<noteq> ''''"
    by simp
  have t: "target demo_host ?params = ''/w/a.txt''"
    by code_simp
  have f: "faults disk (Stat ''/w/a.txt'') = None"
    by code_simp
  have d: "fs disk ''/w/a.txt'' = Some (RegularFile ''old'' 10)"
    by code_simp
  have r: "\<not> 10 > readTime (fileRecords disk ''/w/a.txt'')"
    by code_simp
  have g: "faults disk (ReadFile ''/w/a.txt'') = None"
    by code_simp
  have f': "faults disk (Stat (target demo_host ?params)) = None"
    and d': "fs disk (target demo_host ?params) = Some (RegularFile (Content ?params) 10)"
    and r': "\<not> 10 > readTime (fileRecords disk (target demo_host ?params))"
    and g': "faults disk (ReadFile (target demo_host ?params)) = None"
    using f d r g by (simp_all add: t)
  note concl = unchanged_content_is_a_noop [OF p c f' d' r' g', of demo_ctx, unfolded t]
  show ?thesis
    by (intro conjI p c f d r g conjunct1 [OF concl] conjunct1 [OF conjunct2 [OF concl]])
qed

text \<open>
  C5 as stated fails where the file on disk and the new content are both empty:
  \<^verbatim>\<open>e.txt\<close> exists, is readable, is not stale and holds the new (empty) content, yet the
  answer is \<^verbatim>\<open>content is required\<close>, not the message that no changes were made.
\<close>

theorem unchanged_content_is_a_noop_counterexample:
  "Unmarshal demo_host (Input \<lparr>Input = in_none\<rparr>) = Inr \<lparr>FilePath = ''/w/e.txt'', Content = ''''\<rparr> \<and>
   faults disk (Stat ''/w/e.txt'') = None \<and>
   faults disk (ReadFile ''/w/e.txt'') = None \<and>
   fs disk ''/w/e.txt'' = Some (RegularFile '''' 10) \<and>
   readTime (fileRecords disk ''/w/e.txt'') = 20 \<and>
   fst (Run demo_host demo_ctx \<lparr>Input = in_none\<rparr> disk) =
     Inr (NewTextErrorResponse ''content is required'') \<and>
   fst (Run demo_host demo_ctx \<lparr>Input = in_none\<rparr> disk) \<noteq>
     Inr (NewTextErrorResponse (unchanged_message ''/w/e.txt''))"
  by code_simp

text \<open>
  Claim C6. For every write tool call in which \<^verbatim>\<open>os.WriteFile\<close> fails, the call returns
  the error \<^verbatim>\<open>error writing file: \<dots>\<close> wrapping the I/O error, and the version store and
  the timestamp registry are what they were before the call.
\<close>

theorem failed_write_leaves_no_bookkeeping:
  assumes "Failed (WriteFile q c) e \<in> set (trace h ctx call w)"
  shows "fst (Run h ctx call w) = Inl (Errorf (''error writing file: '' @ e)) \<and>
         versions (snd (Run h ctx call w)) = versions w \<and>
         fileRecords (snd (Run h ctx call w)) = fileRecords w"
proof -
  let ?P = "\<lambda>e. \<not> write_failure e"
  have mem: "Failed (WriteFile q c) e \<in> set (appended w (snd (Run h ctx call w)))"
    using assms by (simp add: trace_def appended_def)
  have pl: "\<And>e. plain e \<Longrightarrow> ?P e"
    by (simp add: plain_not_write_failure)
  have rq: "\<And>params1 dd. Unmarshal h (Input call) = Inr params1 \<Longrightarrow>
                ?P (Granted (permission_request h ctx (target h params1) dd)) \<and>
                ?P (Denied (permission_request h ctx (target h params1) dd))"
    by simp
  note shape = Run_grows [of ?P h call ctx w, OF pl rq]
  from shape
  consider (quiet) "grows ?P w (snd (Run h ctx call w))"
    | (failed) e0 w3 params0 where
        "Run h ctx call w =
           (Inl (Errorf (''error writing file: '' @ e0)),
            emit (Failed (WriteFile (target h params0) (Content params0)) e0) w3)"
        "grows ?P w w3" "versions w3 = versions w" "fileRecords w3 = fileRecords w"
    by blast
  then show ?thesis
  proof cases
    case quiet
    from grows_appended [OF quiet mem] show ?thesis by simp
  next
    case failed
    have "Failed (WriteFile q c) e \<in> set (appended w w3 @ [Failed (WriteFile (target h params0) (Content params0)) e0])"
      using mem failed(1) appended_emit [OF failed(2)] by simp
    moreover have "Failed (WriteFile q c) e \<notin> set (appended w w3)"
      using grows_appended [OF failed(2)] by fastforce
    ultimately have "e = e0" by simp
    then show ?thesis using failed by (simp add: emit_def)
  qed
qed

text \<open>C6 at work: a new file on a disk that cannot be written.\<close>

theorem failed_write_leaves_no_bookkeeping_witness:
  "Failed (WriteFile ''/w/notes.txt'' ''hello'') ''no space left on device''
     \<in> set (trace demo_host demo_ctx \<lparr>Input = in_notes\<rparr> full) \<and>
   fst (Run demo_host demo_ctx \<lparr>Input = in_notes\<rparr> full) =
     Inl (Errorf ''error writing file: no space left on device'') \<and>
   versions (snd (Run demo_host demo_ctx \<lparr>Input = in_notes\<rparr> full)) = versions full \<and>
   fileRecords (snd (Run demo_host demo_ctx \<lparr>Input = in_notes\<rparr> full)) = fileRecords full"
proof -
  have m: "Failed (WriteFile ''/w/notes.txt'' ''hello'') ''no space left on device''
     \<in> set (trace demo_host demo_ctx \<lparr>Input = in_notes\<rparr> full)"
    by code_simp
  from failed_write_leaves_no_bookkeeping [OF m] show ?thesis using m by simp
qed

text \<open>
  Claim C7, amended. A call whose input does not parse and a call whose content is missing
  or empty are answered with a textual tool error, not a Go error, and leave the world,
  the log of calls included, untouched. A call whose file path is missing or empty but
  whose content is not does not fail validation: it behaves exactly as the call that
  names the file \<^verbatim>\<open>generateDefaultFilename\<close> derives from the content.
\<close>

theorem validation_errors:
  assumes "Unmarshal h (Input bad) = Inl err"
    and "Unmarshal h (Input blank) = Inr params0" and "Content params0 = ''''"
    and "Unmarshal h (Input unnamed) = Inr params1" and "FilePath params1 = ''''"
    and "Unmarshal h (Input named) = Inr (params1\<lparr>FilePath := generateDefaultFilename h (Content params1)\<rparr>)"
  shows "Run h ctx bad w = (Inr (NewTextErrorResponse (''error parsing parameters: '' @ err)), w) \<and>
         Run h ctx blank w = (Inr (NewTextErrorResponse ''content is required''), w) \<and>
         Run h ctx unnamed w = Run h ctx named w"
  using assms
  by (simp add: Run_def with_default_name_def generateDefaultFilename_nonempty)

text \<open>The amended C7 at work: a truncated input, an empty content, and a call without a
  file path, which behaves as the call for \<^verbatim>\<open>output.txt\<close>.\<close>

theorem validation_errors_witness:
  "Unmarshal demo_host (Input \<lparr>Input = in_cut\<rparr>) = Inl ''unexpected end of JSON input'' \<and>
   Unmarshal demo_host (Input \<lparr>Input = in_blank\<rparr>) = Inr \<lparr>FilePath = ''/w/a.txt'', Content = ''''\<rparr> \<and>
   Content \<lparr>FilePath = ''/w/a.txt'', Content = ''''\<rparr> = '''' \<and>
   Unmarshal demo_host (Input \<lparr>Input = in_unnamed\<rparr>) = Inr \<lparr>FilePath = '''', Content = ''hello''\<rparr> \<and>
   FilePath \<lparr>FilePath = '''', Content = ''hello''\<rparr> = '''' \<and>
   Unmarshal demo_host (Input \<lparr>Input = in_named\<rparr>) =
     Inr (\<lparr>FilePath = '''', Content = ''hello''\<rparr>
            \<lparr>FilePath := generateDefaultFilename demo_host (Content \<lparr>FilePath = '''', Content = ''hello''\<rparr>)\<rparr>) \<and>
   Run demo_host demo_ctx \<lparr>Input = in_cut\<rparr> disk =
     (Inr (NewTextErrorResponse ''error parsing parameters: unexpected end of JSON input''), disk) \<and>
   Run demo_host demo_ctx \<lparr>Input = in_blank\<rparr> disk =
     (Inr (NewTextErrorResponse ''content is required''), disk) \<and>
   Run demo_host demo_ctx \<lparr>Input = in_unnamed\<rparr> disk = Run demo_host demo_ctx \<lparr>Input = in_named\<rparr> disk"
proof -
  have a: "Unmarshal demo_host (Input \<lparr>Input = in_cut\<rparr>) = Inl ''unexpected end of JSON input''"
    by code_simp
  have b: "Unmarshal demo_host (Input \<lparr>Input = in_blank\<rparr>) = Inr \<lparr>FilePath = ''/w/a.txt'', Content = ''''\<rparr>"
    by code_simp
  have c: "Content \<lparr>FilePath = ''/w/a.txt'', Content = ''''\<rparr> = ''''"
    by simp
  have d: "Unmarshal demo_host (Input \<lparr>Input = in_unnamed\<rparr>) = Inr \<lparr>FilePath = '''', Content = ''hello''\<rparr>"
    by code_simp
  have e: "FilePath \<lparr>FilePath = '''', Content = ''hello''\<rparr> = ''''"
    by simp
  have f: "Unmarshal demo_host (Input \<lparr>Input = in_named\<rparr>) =
     Inr (\<lparr>FilePath = '''', Content = ''hello''\<rparr>
            \<lparr>FilePath := generateDefaultFilename demo_host (Content \<lparr>FilePath = '''', Content = ''hello''\<rparr>)\<rparr>)"
    by code_simp
  from validation_errors [OF a b c d e f, of demo_ctx disk]
  show ?thesis using a b c d e f by simp
qed

text \<open>
  C7 as stated fails for a missing file path: the call that gives only the content
  \<^verbatim>\<open>hello\<close> is not an error. It writes \<^verbatim>\<open>/w/output.txt\<close>, asks for permission and
  records two versions.
\<close>

theorem validation_errors_counterexample:
  "Unmarshal demo_host (Input \<lparr>Input = in_unnamed\<rparr>) = Inr \<lparr>FilePath = '''', Content = ''hello''\<rparr> \<and>
   fst (Run demo_host demo_ctx \<lparr>Input = in_unnamed\<rparr> disk) =
     Inr \<lparr>resp_Content =
            ''<result>'' @ [CHR 0x0A] @ ''File successfully written: /w/output.txt'' @ [CHR 0x0A] @
            ''</result>'',
          resp_Metadata = Some \<lparr>Diff = ''+hello'' @ [CHR 0x0A], Additions = 1, Removals = 0\<rparr>,
          IsError = False\<rparr> \<and>
   fs disk ''/w/output.txt'' = None \<and>
   fs (snd (Run demo_host demo_ctx \<lparr>Input = in_unnamed\<rparr> disk)) ''/w/output.txt'' =
     Some (RegularFile ''hello'' 30) \<and>
   versions (snd (Run demo_host demo_ctx \<lparr>Input = in_unnamed\<rparr> disk)) (''s1'', ''/w/output.txt'') =
     ['''', ''hello'']"
  by code_simp

text \<open>
  Claim C8. For every write tool call that returns a response that is not an error, the
  text is \<^verbatim>\<open><result>\<close>, the line \<^verbatim>\<open>File successfully written: \<close> with the path, and
  \<^verbatim>\<open></result>\<close>, followed by the diagnostics block if and only if a backend has findings
  for the path; the metadata record carries the diff text, the additions and the
  removals that \<^verbatim>\<open>diff.GenerateDiff\<close> computes from the content read before the write, the
  new content and the path.
\<close>

theorem success_response:
  assumes "Run h ctx call w = (Inr resp, w')" and "\<not> IsError resp"
  shows "\<exists>params0 diff additions removals.
     Unmarshal h (Input call) = Inr params0 \<and>
     GenerateDiff h (pre_image w (target h params0)) (Content params0) (target h params0)
       = (diff, additions, removals) \<and>
     resp_Content resp =
       ''<result>'' @ [CHR 0x0A] @ ''File successfully written: '' @ target h params0 @ [CHR 0x0A] @
       ''</result>'' @
       (if findings w (target h params0) = [] then ''''
        else formatDiagnostics h (findings w (target h params0))) \<and>
     resp_Metadata resp = Some \<lparr>Diff = diff, Additions = additions, Removals = removals\<rparr>"
proof -
  from assms have "fst (Run h ctx call w) = Inr resp" by simp
  from Run_success [OF this assms(2)] obtain params0 where
    p: "Unmarshal h (Input call) = Inr params0" and
    r: "resp = success h (target h params0)
           (GenerateDiff h (pre_image w (target h params0)) (Content params0) (target h params0))
           (findings w (target h params0))"
    by blast
  obtain diff additions removals where
    d: "GenerateDiff h (pre_image w (target h params0)) (Content params0) (target h params0)
          = (diff, additions, removals)"
    by (metis prod_cases3)
  show ?thesis using p r d by (simp add: success_def)
qed

text \<open>C8 at work: the new file \<^verbatim>\<open>notes.txt\<close> with the content \<^verbatim>\<open>hello\<close>, one line added
  and none removed, no diagnostics.\<close>

theorem success_response_witness:
  "Run demo_host demo_ctx \<lparr>Input = in_notes\<rparr> disk =
     (Inr \<lparr>resp_Content =
             ''<result>'' @ [CHR 0x0A] @ ''File successfully written: /w/notes.txt'' @ [CHR 0x0A] @
             ''</result>'',
           resp_Metadata = Some \<lparr>Diff = ''+hello'' @ [CHR 0x0A], Additions = 1, Removals = 0\<rparr>,
           IsError = False\<rparr>,
      snd (Run demo_host demo_ctx \<lparr>Input = in_notes\<rparr> disk)) \<and>
   (\<exists>params0 diff additions removals.
      Unmarshal demo_host (Input \<lparr>Input = in_notes\<rparr>) = Inr params0 \<and>
      GenerateDiff demo_host (pre_image disk (target demo_host params0)) (Content params0)
        (target demo_host params0) = (diff, additions, removals) \<and>
      resp_Metadata
        \<lparr>resp_Content =
             ''<result>'' @ [CHR 0x0A] @ ''File successfully written: /w/notes.txt'' @ [CHR 0x0A] @
             ''</result>'',
           resp_Metadata = Some \<lparr>Diff = ''+hello'' @ [CHR 0x0A], Additions = 1, Removals = 0\<rparr>,
           IsError = False\<rparr> =
        Some \<lparr>Diff = diff, Additions = additions, Removals = removals\<rparr>)"
proof -
  let ?r = "\<lparr>resp_Content =
             ''<result>'' @ [CHR 0x0A] @ ''File successfully written: /w/notes.txt'' @ [CHR 0x0A] @
             ''</result>'',
           resp_Metadata = Some \<lparr>Diff = ''+hello'' @ [CHR 0x0A], Additions = 1, Removals = 0\<rparr>,
           IsError = False\<rparr>"
  have "fst (Run demo_host demo_ctx \<lparr>Input = in_notes\<rparr> disk) = Inr ?r"
    by code_simp
  then have run: "Run demo_host demo_ctx \<lparr>Input = in_notes\<rparr> disk =
      (Inr ?r, snd (Run demo_host demo_ctx \<lparr>Input = in_notes\<rparr> disk))"
    by (metis prod.collapse)
  have ok: "\<not> IsError ?r"
    by simp
  from success_response [OF run ok] show ?thesis using run by blast
qed

text \<open>
  Claim C9. For every write tool call whose content parameter is the empty string, the
  tool returns the textual error \<^verbatim>\<open>content is required\<close> and calls no collaborator: no
  filesystem access, no permission request, no version write. The world is unchanged, so
  no existing file is truncated.
\<close>

theorem empty_content_is_rejected:
  assumes "Unmarshal h (Input call) = Inr params0" and "Content params0 = ''''"
  shows "Run h ctx call w = (Inr (NewTextErrorResponse ''content is required''), w) \<and>
         trace h ctx call w = []"
  using assms by (simp add: Run_def trace_def)

text \<open>C9 at work: an empty content for the existing \<^verbatim>\<open>a.txt\<close>.\<close>

theorem empty_content_is_rejected_witness:
  "Unmarshal demo_host (Input \<lparr>Input = in_blank\<rparr>) = Inr \<lparr>FilePath = ''/w/a.txt'', Content = ''''\<rparr> \<and>
   Content \<lparr>FilePath = ''/w/a.txt'', Content = ''''\<rparr> = '''' \<and>
   Run demo_host demo_ctx \<lparr>Input = in_blank\<rparr> disk =
     (Inr (NewTextErrorResponse ''content is required''), disk) \<and>
   trace demo_host demo_ctx \<lparr>Input = in_blank\<rparr> disk = []"
proof -
  have b: "Unmarshal demo_host (Input \<lparr>Input = in_blank\<rparr>) = Inr \<lparr>FilePath = ''/w/a.txt'', Content = ''''\<rparr>"
    by code_simp
  have c: "Content \<lparr>FilePath = ''/w/a.txt'', Content = ''''\<rparr> = ''''"
    by simp
  from empty_content_is_rejected [OF b c, of demo_ctx disk] show ?thesis using b c by simp
qed

text \<open>
  Claim C10, amended. For every write tool call that reaches the permission service,
  granted or denied, the path of the request is the working directory if the resolved
  file path has it as a string prefix, and \<^verbatim>\<open>filepath.Dir\<close> of the file path otherwise;
  the request's parameters name the file path. The path of the request is the file path
  itself only if the file path is the working directory or is its own parent.
\<close>

theorem permission_path:
  assumes parse: "Unmarshal h (Input call) = Inr params0"
    and req: "Granted req \<in> set (trace h ctx call w) \<or> Denied req \<in> set (trace h ctx call w)"
  shows "Path req = (if HasPrefix (target h params0) (WorkingDirectory h)
                     then WorkingDirectory h else Dir h (target h params0)) \<and>
         perm_FilePath (Params req) = target h params0 \<and>
         (Path req = target h params0 \<longrightarrow>
            target h params0 = WorkingDirectory h \<or> Dir h (target h params0) = target h params0)"
proof -
  let ?p = "target h params0"
  let ?dir = "if HasPrefix ?p (WorkingDirectory h) then WorkingDirectory h else Dir h ?p"
  let ?P = "asks ?dir ?p"
  have rq: "\<And>params1 dd. Unmarshal h (Input call) = Inr params1 \<Longrightarrow>
                ?P (Granted (permission_request h ctx (target h params1) dd)) \<and>
                ?P (Denied (permission_request h ctx (target h params1) dd))"
    using parse by (simp add: asks_def permission_request_def Let_def)
  have "grows ?P w (snd (Run h ctx call w))"
  proof -
    from Run_grows [of ?P h call ctx w, OF plain_asks rq]
    consider (quiet) "grows ?P w (snd (Run h ctx call w))"
      | (failed) e0 w3 params1 where
          "Run h ctx call w =
             (Inl (Errorf (''error writing file: '' @ e0)),
              emit (Failed (WriteFile (target h params1) (Content params1)) e0) w3)"
          "grows ?P w w3"
      by blast
    then show ?thesis
    proof cases
      case quiet
      then show ?thesis .
    next
      case failed
      have "grows ?P w (emit (Failed (WriteFile (target h params1) (Content params1)) e0) w3)"
        using failed(2) by (rule grows_emit) (simp add: asks_def)
      then show ?thesis using failed(1) by simp
    qed
  qed
  then have all: "\<And>e. e \<in> set (trace h ctx call w) \<Longrightarrow> ?P e"
    using grows_appended [of ?P w "snd (Run h ctx call w)"] by (simp add: trace_def appended_def)
  from req have "Path req = ?dir \<and> perm_FilePath (Params req) = ?p"
  proof
    assume "Granted req \<in> set (trace h ctx call w)"
    from all [OF this] show ?thesis by (simp add: asks_def)
  next
    assume "Denied req \<in> set (trace h ctx call w)"
    from all [OF this] show ?thesis by (simp add: asks_def)
  qed
  then show ?thesis
    by (simp split: if_splits)
qed

text \<open>
  The amended C10 at work: the request for \<^verbatim>\<open>/w/notes.txt\<close> is about \<^verbatim>\<open>/w\<close>; and
  where the request is about the file path itself, the file path is the working
  directory.
\<close>

theorem permission_path_witness:
  "Unmarshal demo_host (Input \<lparr>Input = in_notes\<rparr>) = Inr \<lparr>FilePath = ''/w/notes.txt'', Content = ''hello''\<rparr> \<and>
   (Granted \<lparr>SessionID = ''s1'', Path = ''/w'', ToolName = ''write'', Action = ''write'',
             Description = ''Create file /w/notes.txt'',
             Params = \<lparr>perm_FilePath = ''/w/notes.txt'', perm_Diff = ''+hello'' @ [CHR 0x0A]\<rparr>\<rparr>
      \<in> set (trace demo_host demo_ctx \<lparr>Input = in_notes\<rparr> disk)) \<and>
   HasPrefix (target demo_host \<lparr>FilePath = ''/w/notes.txt'', Content = ''hello''\<rparr>) (WorkingDirectory demo_host) \<and>
   Path \<lparr>SessionID = ''s1'', Path = ''/w'', ToolName = ''write'', Action = ''write'',
             Description = ''Create file /w/notes.txt'',
             Params = \<lparr>perm_FilePath = ''/w/notes.txt'', perm_Diff = ''+hello'' @ [CHR 0x0A]\<rparr>\<rparr>
     = WorkingDirectory demo_host \<and>
   Unmarshal demo_host (Input \<lparr>Input = in_root\<rparr>) = Inr \<lparr>FilePath = ''/w'', Content = ''hello''\<rparr> \<and>
   (Granted \<lparr>SessionID = ''s1'', Path = ''/w'', ToolName = ''write'', Action = ''write'',
             Description = ''Create file /w'',
             Params = \<lparr>perm_FilePath = ''/w'', perm_Diff = ''+hello'' @ [CHR 0x0A]\<rparr>\<rparr>
      \<in> set (trace demo_host demo_ctx \<lparr>Input = in_root\<rparr> gone)) \<and>
   Path \<lparr>SessionID = ''s1'', Path = ''/w'', ToolName = ''write'', Action = ''write'',
             Description = ''Create file /w'',
             Params = \<lparr>perm_FilePath = ''/w'', perm_Diff = ''+hello'' @ [CHR 0x0A]\<rparr>\<rparr>
     = target demo_host \<lparr>FilePath = ''/w'', Content = ''hello''\<rparr> \<and>
   (target demo_host \<lparr>FilePath = ''/w'', Content = ''hello''\<rparr> = WorkingDirectory demo_host \<or>
    Dir demo_host (target demo_host \<lparr>FilePath = ''/w'', Content = ''hello''\<rparr>) =
      target demo_host \<lparr>FilePath = ''/w'', Content = ''hello''\<rparr>)"
proof -
  let ?req = "\<lparr>SessionID = ''s1'', Path = ''/w'', ToolName = ''write'', Action = ''write'',
             Description = ''Create file /w/notes.txt'',
             Params = \<lparr>perm_FilePath = ''/w/notes.txt'', perm_Diff = ''+hello'' @ [CHR 0x0A]\<rparr>\<rparr>"
  let ?req' = "\<lparr>SessionID = ''s1'', Path = ''/w'', ToolName = ''write'', Action = ''write'',
             Description = ''Create file /w'',
             Params = \<lparr>perm_FilePath = ''/w'', perm_Diff = ''+hello'' @ [CHR 0x0A]\<rparr>\<rparr>"
  have p: "Unmarshal demo_host (Input \<lparr>Input = in_notes\<rparr>) = Inr \<lparr>FilePath = ''/w/notes.txt'', Content = ''hello''\<rparr>"
    by code_simp
  have g: "Granted ?req \<in> set (trace demo_host demo_ctx \<lparr>Input = in_notes\<rparr> disk)"
    by code_simp
  have hp: "HasPrefix (target demo_host \<lparr>FilePath = ''/w/notes.txt'', Content = ''hello''\<rparr>) (WorkingDirectory demo_host)"
    by code_simp
  have p': "Unmarshal demo_host (Input \<lparr>Input = in_root\<rparr>) = Inr \<lparr>FilePath = ''/w'', Content = ''hello''\<rparr>"
    by code_simp
  have g': "Granted ?req' \<in> set (trace demo_host demo_ctx \<lparr>Input = in_root\<rparr> gone)"
    by code_simp
  have t': "Path ?req' = target demo_host \<lparr>FilePath = ''/w'', Content = ''hello''\<rparr>"
    by code_simp
  have one: "Path ?req = WorkingDirectory demo_host"
    using permission_path [OF p disjI1 [OF g]] hp by simp
  have two: "target demo_host \<lparr>FilePath = ''/w'', Content = ''hello''\<rparr> = WorkingDirectory demo_host \<or>
    Dir demo_host (target demo_host \<lparr>FilePath = ''/w'', Content = ''hello''\<rparr>) =
      target demo_host \<lparr>FilePath = ''/w'', Content = ''hello''\<rparr>"
    using permission_path [OF p' disjI1 [OF g']] t' by blast
  show ?thesis
    by (intro conjI p g hp one p' g' t' two)
qed

text \<open>
  C10 as stated, the path of the request is never the file path itself, fails where the
  file path is the working directory and nothing exists there: the request is for
  \<^verbatim>\<open>/w\<close>, the very path to be written.
\<close>

theorem permission_path_counterexample:
  "Unmarshal demo_host (Input \<lparr>Input = in_root\<rparr>) = Inr \<lparr>FilePath = ''/w'', Content = ''hello''\<rparr> \<and>
   target demo_host \<lparr>FilePath = ''/w'', Content = ''hello''\<rparr> = ''/w'' \<and>
   fs gone ''/w'' = None \<and>
   Granted \<lparr>SessionID = ''s1'', Path = ''/w'', ToolName = ''write'', Action = ''write'',
            Description = ''Create file /w'',
            Params = \<lparr>perm_FilePath = ''/w'', perm_Diff = ''+hello'' @ [CHR 0x0A]\<rparr>\<rparr>
     \<in> set (trace demo_host demo_ctx \<lparr>Input = in_root\<rparr> gone)"
  by code_simp

end
